theory Spec2Isabelle
  imports Complex_Main "HOL-Library.Word" "HOL-Library.Product_Lexorder"
begin

unbundle bit_operations_syntax

section \<open>Numbers\<close>

text \<open>
  The engine computes with C++ \<open>float\<close> and \<open>double\<close>. Both are idealised here as the
  real numbers: an operation of the source is the exact operation on reals; rounding,
  overflow to infinity and NaN are outside the model. \<open>std::exp\<close>, \<open>std::log\<close>,
  \<open>std::log1p\<close>, \<open>std::sqrt\<close> and \<open>std::pow\<close> are \<open>exp\<close>, \<open>ln\<close>,
  \<open>\<lambda>x. ln (1 + x)\<close>, \<open>sqrt\<close> and \<open>powr\<close>.
\<close>

type_synonym float32 = real
type_synonym float64 = real

section \<open>Network: the sigmoid\<close>

text \<open>
  \<open>std::pair<float,float> sigmoid(float alpha, float beta, float bonus, float beta2)\<close>;
  Network.h declares the default \<open>beta2 = -1.0f\<close>.
\<close>

definition sigmoid :: "float32 \<Rightarrow> float32 \<Rightarrow> float32 \<Rightarrow> float32 \<Rightarrow> float32 \<times> float32" where
  "sigmoid alpha beta bonus beta2 =
     (let beta2' = (if beta2 < 0 then beta else beta2);
          arg = (if alpha + bonus > 0 then beta2' else beta) * (alpha + bonus);
          absarg = \<bar>arg\<bar>;
          ret = (if absarg > 30 then exp (- absarg) else 1 / (1 + exp absarg))
      in if arg < 0 then (ret, 1 - ret) else (1 - ret, ret))"

text \<open>The three-argument call \<open>sigmoid(alpha, beta, bonus)\<close> of the source.\<close>

definition sigmoid3 :: "float32 \<Rightarrow> float32 \<Rightarrow> float32 \<Rightarrow> float32 \<times> float32" where
  "sigmoid3 alpha beta bonus = sigmoid alpha beta bonus (- 1)"

section \<open>UCTNode: the quantile trackers\<close>

text \<open>
  \<open>UCTNode::update_gxx_sums\<close> adds one term to each of the two running sums of a tracker
  (\<open>atomic_add\<close> on \<open>std::atomic<float>\<close>; the model is sequential). It returns the new
  \<open>(gxgp_sum, gp_sum)\<close>.
\<close>

definition update_gxx_sums ::
  "float32 \<Rightarrow> float32 \<Rightarrow> float32 \<Rightarrow> float32 \<Rightarrow> float32 \<Rightarrow> float32 \<Rightarrow> float32 \<times> float32" where
  "update_gxx_sums old_gxgp_sum old_gp_sum old_quantile new_alpkt new_beta new_beta2 =
     (let g_func = sigmoid new_alpkt new_beta old_quantile new_beta2;
          right_beta = (if new_beta2 > 0 \<and> new_alpkt + old_quantile > 0 then new_beta2 else new_beta);
          gp_term = right_beta * fst g_func * snd g_func;
          gxgp_term = fst g_func - old_quantile * gp_term
      in (old_gxgp_sum + gxgp_term, old_gp_sum + gp_term))"

text \<open>
  \<open>UCTNode::update_quantile\<close> writes the tracker's quantile through a reference; the model
  takes the current quantile first and returns the new one. \<open>new_visits\<close> is a C++
  \<open>int\<close>; it is only compared and converted, so \<open>int\<close> models it.
\<close>

definition update_quantile ::
  "float32 \<Rightarrow> float32 \<Rightarrow> float32 \<Rightarrow> float32 \<Rightarrow> int \<Rightarrow> float32 \<Rightarrow> float32 \<Rightarrow> float32 \<Rightarrow> float32
     \<Rightarrow> float32" where
  "update_quantile old_quantile old_gxgp_sum old_gp_sum parameter new_visits avg_pi
       new_alpkt new_beta new_beta2 =
     (if \<bar>parameter\<bar> < 1 / 100000 then 0
      else if new_visits \<le> 0 then old_quantile
      else
        let avg_p = 0.5 * parameter + (1 - parameter) * avg_pi in
        if new_visits \<le> 8 \<and> old_quantile = 0 then
          let right_beta = (if new_beta2 > 0 \<and> avg_p > 0.5 then new_beta2 else new_beta)
          in (ln avg_p - ln (1 + (- avg_p))) / max 0.01 right_beta - new_alpkt
        else
          let avg_f_prime = old_gp_sum / real_of_int new_visits;
              avg_f = old_gxgp_sum / real_of_int new_visits + old_quantile * avg_f_prime;
              delta = (avg_p - avg_f) / max 0.1 avg_f_prime
          in old_quantile + delta)"


section \<open>Network: the members the model needs\<close>

text \<open>
  \<open>ForwardPipe::ForwardPipeWeights\<close>, as \<open>Network::store_layer\<close> fills it: vectors of
  floats, and vectors of such vectors for the towers.
\<close>

record ForwardPipeWeights =
  m_conv_weights :: "float32 list list"
  m_conv_biases :: "float32 list list"
  m_batchnorm_means :: "float32 list list"
  m_batchnorm_stddevs :: "float32 list list"
  m_conv_pol_w :: "float32 list list"
  m_conv_pol_b :: "float32 list list"
  m_bn_pol_w1 :: "float32 list list"
  m_bn_pol_w2 :: "float32 list list"
  m_conv_val_w :: "float32 list"
  m_conv_val_b :: "float32 list"
  m_bn_val_w1 :: "float32 list"
  m_bn_val_w2 :: "float32 list"
  m_conv_val_pool_w :: "float32 list"
  m_conv_val_pool_b :: "float32 list"
  m_bn_val_pool_w1 :: "float32 list"
  m_bn_val_pool_w2 :: "float32 list"

text \<open>
  The members of \<open>class Network\<close> that the modelled functions read or write. The cache
  \<open>m_nncache\<close> is an \<open>NNCache\<close>, a class that is not among the sources: its state is
  the type parameter \<open>'c\<close>.
\<close>

record 'c Network =
  m_adv_features :: bool
  m_chainlibs_features :: bool
  m_chainsize_features :: bool
  m_quartile_encoding :: bool
  m_value_head_not_stm :: bool
  m_value_head_sai :: bool
  m_nncache :: 'c
  m_fwd_weights :: ForwardPipeWeights
  m_vh_dense_biases :: "float32 list list"
  m_vh_dense_bn_means :: "float32 list list"
  m_vh_dense_bn_vars :: "float32 list list"

text \<open>
  A network before loading, for the examples: every flag false, no weights, around a given
  cache; \<open>fresh_network\<close> has a cache without state.
\<close>

definition no_weights :: ForwardPipeWeights where
  "no_weights = \<lparr>m_conv_weights = [], m_conv_biases = [], m_batchnorm_means = [],
     m_batchnorm_stddevs = [], m_conv_pol_w = [], m_conv_pol_b = [], m_bn_pol_w1 = [],
     m_bn_pol_w2 = [], m_conv_val_w = [], m_conv_val_b = [], m_bn_val_w1 = [], m_bn_val_w2 = [],
     m_conv_val_pool_w = [], m_conv_val_pool_b = [], m_bn_val_pool_w1 = [],
     m_bn_val_pool_w2 = []\<rparr>"

definition network_with_cache :: "'c \<Rightarrow> 'c Network" where
  "network_with_cache c = \<lparr>m_adv_features = False, m_chainlibs_features = False,
     m_chainsize_features = False, m_quartile_encoding = False, m_value_head_not_stm = False,
     m_value_head_sai = False, m_nncache = c, m_fwd_weights = no_weights,
     m_vh_dense_biases = [], m_vh_dense_bn_means = [], m_vh_dense_bn_vars = []\<rparr>"

definition fresh_network :: "unit Network" where
  "fresh_network = network_with_cache ()"

section \<open>Network: reading the format version\<close>

text \<open>
  What \<open>Network::load_network_file\<close> meets: a file that \<open>gzopen\<close> cannot open, a file
  that \<open>gzread\<close> fails on, or a buffer, of which \<open>std::getline\<close> and
  \<open>iss >> format_version\<close> see only the first line: no line at all, a line that is empty
  or holds white space only, a line that does not start with an integer, or a line holding
  the integer \<open>v\<close>.
\<close>

datatype first_line = NoLine | Blank | NotANumber | Number int

datatype weights_file = Unopenable | Unreadable | Buffer first_line

datatype load_error =
    CouldNotOpen      \<comment> \<open>"Could not open weights file"\<close>
  | FailedToRead      \<comment> \<open>"Failed to decompress or read"\<close>
  | WrongVersion      \<comment> \<open>"Weights file is the wrong version."\<close>
  | NoVersionLine     \<comment> \<open>the final \<open>return 1\<close>, without a message\<close>
  | ErrorInReading    \<comment> \<open>\<open>load_v1_network\<close> returned 1\<close>

text \<open>
  \<open>iss >> format_version\<close> into an \<open>int\<close> initialised to \<open>-1\<close>: the pair of
  \<open>iss.fail()\<close> and the value stored. A number outside the 32-bit range sets the
  fail bit and stores the nearest bound; characters that are no number set the fail bit
  and store 0; on a blank line the stream ends while the white space is skipped, the fail
  bit is set and nothing is stored: \<open>format_version\<close> stays \<open>-1\<close>.
  \<open>format_version\<close> is a C++ \<open>int\<close>; it is modelled as an \<open>int\<close> kept within
  \<open>[-2^31, 2^31)\<close>, on which \<open>AND\<close> with a non-negative mask is the two's-complement
  \<open>&\<close>, and \<open>format_version - (format_version & 511)\<close> cannot overflow.
\<close>

definition extract_int :: "first_line \<Rightarrow> bool \<times> int" where
  "extract_int l =
     (case l of
        NoLine \<Rightarrow> (True, - 1)
      | Blank \<Rightarrow> (True, - 1)
      | NotANumber \<Rightarrow> (True, 0)
      | Number v \<Rightarrow>
          if v < - (2 ^ 31) then (True, - (2 ^ 31))
          else if 2 ^ 31 \<le> v then (True, 2 ^ 31 - 1)
          else (False, v))"

text \<open>
  \<open>Network::load_network_file\<close>. The rest of the file is read by
  \<open>load_v1_network\<close>, here a parameter: it gets the network and the format version and
  returns the network and whether it failed (its \<open>return 1\<close>).
\<close>

definition load_network_file ::
  "('c Network \<Rightarrow> int \<Rightarrow> bool \<times> 'c Network) \<Rightarrow> weights_file \<Rightarrow> 'c Network
     \<Rightarrow> (load_error + unit) \<times> 'c Network" where
  "load_network_file load_v1_network file net =
     (case file of
        Unopenable \<Rightarrow> (Inl CouldNotOpen, net)
      | Unreadable \<Rightarrow> (Inl FailedToRead, net)
      | Buffer line \<Rightarrow>
          if line = NoLine then (Inl NoVersionLine, net)
          else
          let (iss_fail, format_version) = extract_int line;
              net = net\<lparr>m_adv_features := (format_version AND 16 \<noteq> 0),
                        m_chainlibs_features := (format_version AND 64 \<noteq> 0),
                        m_chainsize_features := (format_version AND 128 \<noteq> 0),
                        m_quartile_encoding := (format_version AND 256 \<noteq> 0)\<rparr>;
              extra_bits = format_version - (format_version AND 511);
              lz_or_elf = format_version AND 3
          in if iss_fail \<or> (lz_or_elf \<noteq> 1 \<and> lz_or_elf \<noteq> 2) \<or> extra_bits \<noteq> 0
             then (Inl WrongVersion, net)
             else
               let net = net\<lparr>m_value_head_not_stm := (lz_or_elf = 2)\<rparr>;
                   (failed, net) = load_v1_network net format_version
               in (if failed then Inl ErrorInReading else Inr (), net))"

section \<open>Network: folding the biases into the batch-norm layers\<close>

text \<open>\<open>process_bn_var\<close>, with \<open>epsilon = 1e-5f\<close>.\<close>

definition process_bn_var :: "float32 list \<Rightarrow> float32 list" where
  "process_bn_var weights = map (\<lambda>w. 1 / sqrt (w + 1 / 100000)) weights"

text \<open>
  The loops of \<open>Network::initialize\<close> that move the biases into the batch-norm means
  index their vectors with \<open>operator[]\<close>. An index past the end of a vector is undefined
  behaviour in the source; the model returns \<open>None\<close> there.

  The inner loop, \<open>for (j = 0; j < n; j++) { means[j] -= biases[j]; biases[j] = 0.0f; }\<close>,
  on one vector of biases and one of means:
\<close>

definition bias_into_mean :: "float32 list \<times> float32 list \<Rightarrow> nat \<Rightarrow> (float32 list \<times> float32 list) option" where
  "bias_into_mean bm j =
     (let (biases, means) = bm in
      if j < length biases \<and> j < length means
      then Some (biases[j := 0], means[j := means ! j - biases ! j])
      else None)"

definition biases_into_means ::
  "nat \<Rightarrow> float32 list \<Rightarrow> float32 list \<Rightarrow> (float32 list \<times> float32 list) option" where
  "biases_into_means n biases means =
     fold (\<lambda>j acc. case acc of None \<Rightarrow> None | Some bm \<Rightarrow> bias_into_mean bm j) [0..<n]
       (Some (biases, means))"

text \<open>
  The outer loop over a tower, \<open>for (i = 0; i < count; i++)\<close>: the inner loop on the
  \<open>i\<close>-th vectors, then \<open>process_bn_var\<close> on the \<open>i\<close>-th vector of variances. The inner
  bound is \<open>means[i].size()\<close> for the residual tower and \<open>biases[i].size()\<close> for the
  policy tower and the value head's dense tower; \<open>bound_by_means\<close> chooses.
\<close>

definition fuse_layer ::
  "bool \<Rightarrow> (float32 list list \<times> float32 list list \<times> float32 list list) \<Rightarrow> nat
     \<Rightarrow> (float32 list list \<times> float32 list list \<times> float32 list list) option" where
  "fuse_layer bound_by_means t i =
     (let (biases, means, vars) = t in
      if i < length biases \<and> i < length means \<and> i < length vars then
        (case biases_into_means (if bound_by_means then length (means ! i) else length (biases ! i))
                (biases ! i) (means ! i) of
           None \<Rightarrow> None
         | Some (b, m) \<Rightarrow> Some (biases[i := b], means[i := m], vars[i := process_bn_var (vars ! i)]))
      else None)"

definition fuse_tower ::
  "bool \<Rightarrow> float32 list list \<Rightarrow> float32 list list \<Rightarrow> float32 list list
     \<Rightarrow> (float32 list list \<times> float32 list list \<times> float32 list list) option" where
  "fuse_tower bound_by_means biases means vars =
     fold (\<lambda>i acc. case acc of None \<Rightarrow> None | Some t \<Rightarrow> fuse_layer bound_by_means t i)
       [0..<length biases] (Some (biases, means, vars))"

text \<open>
  The part of \<open>Network::initialize\<close> from "Biases are not calculated ..." to the last
  \<open>process_bn_var\<close>: the input convolution and the residual tower, the value convolution,
  the value pooling convolution, the policy tower, the value head's dense tower. The
  Winograd transform before it changes \<open>m_conv_weights\<close> only, which these loops do not
  read.
\<close>

definition initialize_fold_biases :: "'c Network \<Rightarrow> 'c Network option" where
  "initialize_fold_biases net =
     (let w = m_fwd_weights net in
      case fuse_tower True (m_conv_biases w) (m_batchnorm_means w) (m_batchnorm_stddevs w) of
        None \<Rightarrow> None
      | Some (conv_biases, batchnorm_means, batchnorm_stddevs) \<Rightarrow>
      case biases_into_means (length (m_bn_val_w1 w)) (m_conv_val_b w) (m_bn_val_w1 w) of
        None \<Rightarrow> None
      | Some (conv_val_b, bn_val_w1) \<Rightarrow>
      case biases_into_means (length (m_bn_val_pool_w1 w)) (m_conv_val_pool_b w) (m_bn_val_pool_w1 w) of
        None \<Rightarrow> None
      | Some (conv_val_pool_b, bn_val_pool_w1) \<Rightarrow>
      case fuse_tower False (m_conv_pol_b w) (m_bn_pol_w1 w) (m_bn_pol_w2 w) of
        None \<Rightarrow> None
      | Some (conv_pol_b, bn_pol_w1, bn_pol_w2) \<Rightarrow>
      case fuse_tower False (m_vh_dense_biases net) (m_vh_dense_bn_means net) (m_vh_dense_bn_vars net) of
        None \<Rightarrow> None
      | Some (vh_dense_biases, vh_dense_bn_means, vh_dense_bn_vars) \<Rightarrow>
          Some (net\<lparr>m_fwd_weights :=
                       w\<lparr>m_conv_biases := conv_biases, m_batchnorm_means := batchnorm_means,
                         m_batchnorm_stddevs := batchnorm_stddevs,
                         m_conv_val_b := conv_val_b, m_bn_val_w1 := bn_val_w1,
                         m_bn_val_w2 := process_bn_var (m_bn_val_w2 w),
                         m_conv_val_pool_b := conv_val_pool_b, m_bn_val_pool_w1 := bn_val_pool_w1,
                         m_bn_val_pool_w2 := process_bn_var (m_bn_val_pool_w2 w),
                         m_conv_pol_b := conv_pol_b, m_bn_pol_w1 := bn_pol_w1,
                         m_bn_pol_w2 := bn_pol_w2\<rparr>,
                     m_vh_dense_biases := vh_dense_biases,
                     m_vh_dense_bn_means := vh_dense_bn_means,
                     m_vh_dense_bn_vars := vh_dense_bn_vars\<rparr>))"

text \<open>
  What \<open>Network::store_layer\<close> asserts of every block of four lines it stores as a
  convolution (or dense layer) with its batch normalisation: the lines of the biases, of
  the means and of the variances have one length. A tower holds as many vectors of each.
\<close>

definition tower_consistent :: "float32 list list \<Rightarrow> float32 list list \<Rightarrow> float32 list list \<Rightarrow> bool" where
  "tower_consistent biases means vars \<longleftrightarrow>
     length means = length biases \<and> length vars = length biases \<and>
     list_all (\<lambda>i. length (means ! i) = length (biases ! i) \<and> length (vars ! i) = length (biases ! i))
       [0..<length biases]"

definition weights_consistent :: "'c Network \<Rightarrow> bool" where
  "weights_consistent net \<longleftrightarrow>
     (let w = m_fwd_weights net in
      tower_consistent (m_conv_biases w) (m_batchnorm_means w) (m_batchnorm_stddevs w) \<and>
      length (m_bn_val_w1 w) = length (m_conv_val_b w) \<and>
      length (m_bn_val_w2 w) = length (m_conv_val_b w) \<and>
      length (m_bn_val_pool_w1 w) = length (m_conv_val_pool_b w) \<and>
      length (m_bn_val_pool_w2 w) = length (m_conv_val_pool_b w) \<and>
      tower_consistent (m_conv_pol_b w) (m_bn_pol_w1 w) (m_bn_pol_w2 w) \<and>
      tower_consistent (m_vh_dense_biases net) (m_vh_dense_bn_means net) (m_vh_dense_bn_vars net))"

text \<open>
  A small loaded network for the examples: an input convolution with two channels, a value
  convolution and a policy convolution with one channel each, no pooling and no dense tower.
\<close>

definition small_network :: "unit Network" where
  "small_network = fresh_network\<lparr>m_fwd_weights :=
     no_weights\<lparr>m_conv_biases := [[1, 2]], m_batchnorm_means := [[5, 7]],
       m_batchnorm_stddevs := [[99999 / 100000, 399999 / 100000]],
       m_conv_val_b := [3], m_bn_val_w1 := [4], m_bn_val_w2 := [899999 / 100000],
       m_conv_pol_b := [[1]], m_bn_pol_w1 := [[1]], m_bn_pol_w2 := [[99999 / 100000]]\<rparr>\<rparr>"

section \<open>The game state, the evaluation result and the cache\<close>

text \<open>
  \<open>FastBoard::BLACK\<close> and \<open>FastBoard::WHITE\<close>, the two values \<open>get_to_move\<close> returns.
\<close>

datatype color = BLACK | WHITE

text \<open>
  \<open>NNCache::Netresult\<close> (NNCache.h is not among the sources; the fields are those the
  sources read and write). The selectors carry the prefix \<open>nr_\<close>: the source calls the
  fields \<open>policy\<close>, \<open>policy_pass\<close>, \<open>value\<close>, \<open>alpha\<close>, \<open>beta\<close>, \<open>beta2\<close>,
  \<open>is_sai\<close>. \<open>policy\<close> is a \<open>std::array<float, NUM_INTERSECTIONS>\<close>.
\<close>

record Netresult =
  nr_policy :: "float32 list"
  nr_policy_pass :: float32
  nr_value :: float32
  nr_alpha :: float32
  nr_beta :: float32
  nr_beta2 :: float32
  nr_is_sai :: bool

type_synonym hash = "64 word"

text \<open>
  \<open>GameState\<close> is consumed through its member functions (GameState.h, FastBoard.h and
  TimeControl.h are not among the sources). A state is the record of what they return:
  \<open>opening_moves\<close> is \<open>get_timecontrol().opening_moves\<close>, \<open>get_boardsize\<close>,
  \<open>get_hash\<close>, \<open>get_vertex\<close>, \<open>get_sym_move\<close>, \<open>get_index\<close> and \<open>get_xy\<close> are
  those of \<open>state.board\<close>. Vertices are C++ \<open>int\<close>s, indices are array indices.
\<close>

record GameState =
  get_boardsize :: nat
  get_hash :: hash
  get_symmetry_hash :: "nat \<Rightarrow> hash"
  get_movenum :: nat
  opening_moves :: "nat \<Rightarrow> nat"
  get_komi_adj :: float32
  get_to_move :: color
  get_passes :: nat
  get_alpkt :: "float32 \<Rightarrow> float32"
  is_symmetry_invariant :: "nat \<Rightarrow> bool"
  get_vertex :: "nat \<Rightarrow> int"
  is_move_legal :: "color \<Rightarrow> int \<Rightarrow> bool"
  get_sym_move :: "int \<Rightarrow> nat \<Rightarrow> int"
  get_index :: "int \<Rightarrow> nat"
  get_xy :: "int \<Rightarrow> int \<times> int"
  final_score :: float32
  is_cpu_color :: bool

text \<open>The configuration globals (GTP.h) that the modelled functions read.\<close>

record config =
  cfg_noise :: bool
  cfg_random_cnt :: int
  cfg_use_nncache :: bool
  cfg_dumbpass :: bool
  cfg_exploit_symmetries :: bool
  cfg_symm_nonrandom :: bool
  cfg_policy_temp :: float32
  cfg_lambda :: "float32 list"
  cfg_mu :: "float32 list"

text \<open>
  \<open>Network::Ensemble\<close>, and what a call can end in instead of returning: the
  \<open>NetworkHaltException\<close> of Network.h, or a failed \<open>assert\<close>.
\<close>

datatype Ensemble = DIRECT | RANDOM_SYMMETRY | AVERAGE

datatype failure = NetworkHaltException | AssertionFailed

text \<open>
  The calls that leave the modelled functions are recorded, in order, in a trace: each
  \<open>m_nncache.lookup\<close>, each \<open>m_nncache.insert\<close> and each \<open>get_output_internal\<close>, the
  forward pass of the network, with its symmetry. The trace is not in the source; it
  makes "is probed", "is not called" and "is inserted" statements about a run.
\<close>

datatype event = CacheLookup hash | CacheInsert hash Netresult | Forward nat

text \<open>
  \<open>SearchResult\<close> (UCTSearch.h), as \<open>SearchResult::from_eval\<close> is given it; the
  selectors carry the prefix \<open>sr_\<close>.
\<close>

record SearchResult =
  sr_eval :: float32
  sr_alpkt :: float32
  sr_beta :: float32
  sr_beta2 :: float32
  sr_is_sai :: bool

text \<open>
  What the model takes from code that is not among the sources, as parameters:
  \<^item> \<open>BOARD_SIZE\<close>, the compile-time constant of config.h;
  \<^item> \<open>default_Netresult\<close>, the value of a default-constructed \<open>Netresult\<close>;
  \<^item> \<open>cache_lookup\<close> and \<open>cache_insert\<close>, the \<open>lookup\<close> and \<open>insert\<close> of \<open>NNCache\<close>
    on a cache state of type \<open>'c\<close>; a lookup returns the entry, if there is one, and
    leaves the cache as it is;
  \<^item> \<open>randfix8\<close> and \<open>unif_law\<close>, the draws \<open>Random::get_Rng().randfix<8>()\<close> and
    \<open>std::uniform_real_distribution<float>{0.0, 1.0}\<close> from a generator state \<open>'r\<close>;
  \<^item> \<open>get_output_internal\<close>, the forward pass (Network.cpp has its body, which runs the
    external \<open>ForwardPipe\<close>): it returns a result or raises the halt signal of a drained
    backend; the theorems hold whatever it computes;
  \<^item> \<open>eval_with_bonus\<close> of \<open>SearchResult\<close> (UCTSearch.h) and the getters
    \<open>get_father_quantile_lambda\<close>, \<open>get_father_quantile_mu\<close> of \<open>UCTNode\<close> (UCTNode.h),
    given the values of the search result and of the node they read.
\<close>

record ('c, 'r) env =
  BOARD_SIZE :: nat
  cfg :: config
  default_Netresult :: Netresult
  cache_lookup :: "'c \<Rightarrow> hash \<Rightarrow> Netresult option"
  cache_insert :: "hash \<Rightarrow> Netresult \<Rightarrow> 'c \<Rightarrow> 'c"
  randfix8 :: "'r \<Rightarrow> nat \<times> 'r"
  unif_law :: "'r \<Rightarrow> float32 \<times> 'r"
  get_output_internal :: "GameState \<Rightarrow> nat \<Rightarrow> failure + Netresult"
  eval_with_bonus :: "SearchResult \<Rightarrow> float32 \<Rightarrow> float32 \<Rightarrow> float32"
  father_quantile_lambda :: float32
  father_quantile_mu :: float32

text \<open>What a call changes outside the node: the network (its cache), the generator, the trace.\<close>

record ('c, 'r) world =
  w_net :: "'c Network"
  w_rng :: 'r
  w_trace :: "event list"

definition NUM_INTERSECTIONS :: "('c, 'r) env \<Rightarrow> nat" where
  "NUM_INTERSECTIONS e = BOARD_SIZE e * BOARD_SIZE e"

definition NUM_SYMMETRIES :: nat where
  "NUM_SYMMETRIES = 8"

definition IDENTITY_SYMMETRY :: nat where
  "IDENTITY_SYMMETRY = 0"

section \<open>Network: symmetries and the cache probe\<close>

text \<open>
  \<open>Network::get_symmetry\<close>. Its assertions (coordinates on the board, symmetry below 8)
  hold for every call from \<open>Network::initialize\<close>, the only caller modelled.
\<close>

definition get_symmetry :: "int \<times> int \<Rightarrow> nat \<Rightarrow> int \<Rightarrow> int \<times> int" where
  "get_symmetry vertex symmetry board_size =
     (let x = fst vertex; y = snd vertex;
          x' = (if symmetry AND 4 \<noteq> 0 then y else x);
          y' = (if symmetry AND 4 \<noteq> 0 then x else y);
          x'' = (if symmetry AND 2 \<noteq> 0 then board_size - x' - 1 else x');
          y'' = (if symmetry AND 1 \<noteq> 0 then board_size - y' - 1 else y')
      in (x'', y''))"

text \<open>
  The global \<open>symmetry_nn_idx_table\<close>, with the entries \<open>Network::initialize\<close> writes
  ("Prepare symmetry table").
\<close>

definition symmetry_nn_idx_table :: "('c, 'r) env \<Rightarrow> nat \<Rightarrow> nat \<Rightarrow> nat" where
  "symmetry_nn_idx_table e s v =
     (let newvtx = get_symmetry (int (v mod BOARD_SIZE e), int (v div BOARD_SIZE e)) s
                     (int (BOARD_SIZE e))
      in nat (snd newvtx * int (BOARD_SIZE e) + fst newvtx))"

text \<open>\<open>Network::get_sai_winrate\<close>: it writes \<open>result.value\<close>.\<close>

definition get_sai_winrate :: "Netresult \<Rightarrow> GameState \<Rightarrow> Netresult" where
  "get_sai_winrate result state =
     (let komi = get_komi_adj state;
          white = (get_to_move state = WHITE)
      in result\<lparr>nr_value :=
           fst (sigmoid (nr_alpha result) (nr_beta result) (if white then komi else - komi)
                  (nr_beta2 result))\<rparr>)"

text \<open>
  One \<open>m_nncache.lookup(hash, result)\<close>: the entry found, if any, and the lookup recorded.
\<close>

definition nncache_lookup ::
  "('c, 'r) env \<Rightarrow> hash \<Rightarrow> ('c, 'r) world \<Rightarrow> Netresult option \<times> ('c, 'r) world" where
  "nncache_lookup e h w =
     (cache_lookup e (m_nncache (w_net w)) h, w\<lparr>w_trace := w_trace w @ [CacheLookup h]\<rparr>)"

text \<open>
  The loop of \<open>Network::probe_cache\<close> over the symmetries, from the symmetries left to
  try (\<open>symm\<close> is the source's \<open>sym\<close>): the identity is skipped, the first hit ends
  the loop with the policy read through the symmetry table.
\<close>

fun probe_symmetries ::
  "('c, 'r) env \<Rightarrow> GameState \<Rightarrow> nat list \<Rightarrow> Netresult \<Rightarrow> ('c, 'r) world
     \<Rightarrow> (bool \<times> Netresult) \<times> ('c, 'r) world" where
  "probe_symmetries e state [] result w = ((False, result), w)"
| "probe_symmetries e state (symm # syms) result w =
     (if symm = IDENTITY_SYMMETRY then probe_symmetries e state syms result w
      else
        let hash = get_symmetry_hash state symm;
            (found, w') = nncache_lookup e hash w
        in case found of
             Some cached \<Rightarrow>
               let corrected_policy =
                     map (\<lambda>idx. nr_policy cached ! symmetry_nn_idx_table e symm idx)
                       [0..<NUM_INTERSECTIONS e]
               in ((True, cached\<lparr>nr_policy := corrected_policy\<rparr>), w')
           | None \<Rightarrow> probe_symmetries e state syms result w')"

text \<open>\<open>Network::probe_cache\<close>: whether the cache had the state, the result, the world.\<close>

definition probe_cache ::
  "('c, 'r) env \<Rightarrow> GameState \<Rightarrow> Netresult \<Rightarrow> ('c, 'r) world
     \<Rightarrow> (bool \<times> Netresult) \<times> ('c, 'r) world" where
  "probe_cache e state result w =
     (let (found, w1) = nncache_lookup e (get_hash state) w;
          ((cache_success, result'), w2) =
            (case found of
               Some cached \<Rightarrow> ((True, cached), w1)
             | None \<Rightarrow>
                 if \<not> cfg_noise (cfg e) \<and> cfg_random_cnt (cfg e) = 0
                    \<and> get_movenum state < opening_moves state (BOARD_SIZE e) div 2
                 then probe_symmetries e state [0..<NUM_SYMMETRIES] result w1
                 else ((False, result), w1))
      in if cache_success \<and> nr_is_sai result'
         then ((cache_success, get_sai_winrate result' state), w2)
         else ((cache_success, result'), w2))"

section \<open>Network: get_output\<close>

text \<open>One \<open>get_output_internal(state, symmetry)\<close>, recorded.\<close>

definition forward ::
  "('c, 'r) env \<Rightarrow> GameState \<Rightarrow> nat \<Rightarrow> ('c, 'r) world \<Rightarrow> (failure + Netresult) \<times> ('c, 'r) world" where
  "forward e state symmetry w =
     (get_output_internal e state symmetry, w\<lparr>w_trace := w_trace w @ [Forward symmetry]\<rparr>)"

text \<open>The body of the loop of the \<open>AVERAGE\<close> ensemble: \<open>tmpresult\<close> added to \<open>result\<close>.\<close>

definition accumulate :: "('c, 'r) env \<Rightarrow> Netresult \<Rightarrow> Netresult \<Rightarrow> Netresult" where
  "accumulate e result tmpresult =
     result\<lparr>nr_policy_pass := nr_policy_pass result + nr_policy_pass tmpresult / real NUM_SYMMETRIES,
            nr_value := nr_value result + nr_value tmpresult / real NUM_SYMMETRIES,
            nr_alpha := nr_alpha result + nr_alpha tmpresult / real NUM_SYMMETRIES,
            nr_beta := nr_beta result + nr_beta tmpresult / real NUM_SYMMETRIES,
            nr_beta2 := nr_beta2 result + nr_beta2 tmpresult / real NUM_SYMMETRIES,
            nr_is_sai := nr_is_sai tmpresult,
            nr_policy := map (\<lambda>idx. nr_policy result ! idx
                                       + nr_policy tmpresult ! idx / real NUM_SYMMETRIES)
                           [0..<NUM_INTERSECTIONS e]\<rparr>"

fun average_loop ::
  "('c, 'r) env \<Rightarrow> GameState \<Rightarrow> nat list \<Rightarrow> Netresult \<Rightarrow> ('c, 'r) world
     \<Rightarrow> (failure + Netresult) \<times> ('c, 'r) world" where
  "average_loop e state [] result w = (Inr result, w)"
| "average_loop e state (symm # syms) result w =
     (case forward e state symm w of
        (Inl ex, w') \<Rightarrow> (Inl ex, w')
      | (Inr tmpresult, w') \<Rightarrow> average_loop e state syms (accumulate e result tmpresult) w')"

text \<open>
  The evaluation \<open>Network::get_output\<close> runs after a cache miss, by ensemble. The branch
  compiled under \<open>USE_OPENCL_SELFCHECK\<close> is not modelled (the \<open>#else\<close> branch is).
\<close>

definition evaluate ::
  "('c, 'r) env \<Rightarrow> GameState \<Rightarrow> Ensemble \<Rightarrow> int \<Rightarrow> Netresult \<Rightarrow> ('c, 'r) world
     \<Rightarrow> (failure + Netresult) \<times> ('c, 'r) world" where
  "evaluate e state ensemble symmetry result w =
     (case ensemble of
        DIRECT \<Rightarrow>
          if 0 \<le> symmetry \<and> symmetry < int NUM_SYMMETRIES
          then forward e state (nat symmetry) w
          else (Inl AssertionFailed, w)
      | AVERAGE \<Rightarrow>
          if symmetry = - 1
          then average_loop e state [0..<NUM_SYMMETRIES] result w
          else (Inl AssertionFailed, w)
      | RANDOM_SYMMETRY \<Rightarrow>
          if symmetry = - 1
          then let (rand_sym, rng) = randfix8 e (w_rng w)
               in forward e state rand_sym (w\<lparr>w_rng := rng\<rparr>)
          else (Inl AssertionFailed, w))"

text \<open>One \<open>m_nncache.insert(hash, result)\<close>, recorded.\<close>

definition nncache_insert ::
  "('c, 'r) env \<Rightarrow> hash \<Rightarrow> Netresult \<Rightarrow> ('c, 'r) world \<Rightarrow> ('c, 'r) world" where
  "nncache_insert e h result w =
     w\<lparr>w_net := (w_net w)\<lparr>m_nncache := cache_insert e h result (m_nncache (w_net w))\<rparr>,
       w_trace := w_trace w @ [CacheInsert h result]\<rparr>"

text \<open>
  The end of \<open>Network::get_output\<close>, from "v2 format (ELF Open Go) returns black value,
  not stm": an exception of the evaluation passes through; a result is flipped for an ELF
  network with white to move, and inserted into the cache if \<open>write_cache\<close>.
\<close>

definition after_evaluate ::
  "('c, 'r) env \<Rightarrow> GameState \<Rightarrow> bool \<Rightarrow> (failure + Netresult) \<times> ('c, 'r) world
     \<Rightarrow> (failure + Netresult) \<times> ('c, 'r) world" where
  "after_evaluate e state write_cache ev =
     (case ev of
        (Inl ex, w2) \<Rightarrow> (Inl ex, w2)
      | (Inr result2, w2) \<Rightarrow>
          let result3 =
                (if m_value_head_not_stm (w_net w2) \<and> get_to_move state = WHITE
                 then result2\<lparr>nr_value := 1 - nr_value result2\<rparr> else result2);
              w3 = (if write_cache then nncache_insert e (get_hash state) result3 w2 else w2)
          in (Inr result3, w3))"

text \<open>\<open>Network::get_output\<close>; \<open>force_selfcheck\<close> is unused outside the self-check build.\<close>

definition get_output ::
  "('c, 'r) env \<Rightarrow> GameState \<Rightarrow> Ensemble \<Rightarrow> int \<Rightarrow> bool \<Rightarrow> bool \<Rightarrow> ('c, 'r) world
     \<Rightarrow> (failure + Netresult) \<times> ('c, 'r) world" where
  "get_output e state ensemble symmetry read_cache write_cache w =
     (let result = default_Netresult e in
      if get_boardsize state \<noteq> BOARD_SIZE e then (Inr result, w)
      else
        let ((hit, result1), w1) =
              (if read_cache \<and> ensemble \<noteq> AVERAGE then probe_cache e state result w
               else ((False, result), w))
        in if hit then (Inr result1, w1)
           else after_evaluate e state write_cache (evaluate e state ensemble symmetry result1 w1))"

text \<open>The hashes looked up, the symmetries evaluated and the insertions, read off a trace.\<close>

fun lookups :: "event list \<Rightarrow> hash list" where
  "lookups [] = []"
| "lookups (CacheLookup h # tr) = h # lookups tr"
| "lookups (ev # tr) = lookups tr"



text \<open>
  The condition under which \<open>probe_cache\<close> tries the symmetric hashes after a miss: no
  noise, no random moves, and the game still in the early opening.
\<close>

definition in_early_opening :: "('c, 'r) env \<Rightarrow> GameState \<Rightarrow> bool" where
  "in_early_opening e state \<longleftrightarrow>
     \<not> cfg_noise (cfg e) \<and> cfg_random_cnt (cfg e) = 0
     \<and> get_movenum state < opening_moves state (BOARD_SIZE e) div 2"

text \<open>
  What \<open>probe_cache\<close> returns on a hit under symmetry \<open>s\<close>: the cached result with its
  policy read through the symmetry table and, for a SAI result, its value recomputed by
  \<open>get_sai_winrate\<close>.
\<close>

definition rotated :: "('c, 'r) env \<Rightarrow> GameState \<Rightarrow> nat \<Rightarrow> Netresult \<Rightarrow> Netresult" where
  "rotated e state s cached =
     (let r = cached\<lparr>nr_policy := map (\<lambda>idx. nr_policy cached ! symmetry_nn_idx_table e s idx)
                                      [0..<NUM_INTERSECTIONS e]\<rparr>
      in if nr_is_sai r then get_sai_winrate r state else r)"

section \<open>Examples\<close>

text \<open>
  Concrete values for the parameters, on a 19 x 19 board: a cache that is a list of
  entries and keeps an entry it already has, a generator that counts its draws, a forward
  pass that returns a fixed result for each symmetry, an \<open>eval_with_bonus\<close> that returns
  the evaluation.
\<close>

definition example_default :: Netresult where
  "example_default = \<lparr>nr_policy = replicate 361 0, nr_policy_pass = 0, nr_value = 0,
     nr_alpha = 0, nr_beta = 0, nr_beta2 = 0, nr_is_sai = False\<rparr>"

definition example_result :: "nat \<Rightarrow> Netresult" where
  "example_result s = \<lparr>nr_policy = map (\<lambda>i. if i < 19 then 1 / 40 else 1 / 1000) [0..<361],
     nr_policy_pass = 1 / 5, nr_value = 9 / 10, nr_alpha = real s, nr_beta = 1, nr_beta2 = 2,
     nr_is_sai = False\<rparr>"

definition example_cached :: Netresult where
  "example_cached = \<lparr>nr_policy = map real [0..<361], nr_policy_pass = 1 / 2, nr_value = 3 / 4,
     nr_alpha = 1, nr_beta = 1, nr_beta2 = - 1, nr_is_sai = False\<rparr>"

definition example_cfg :: config where
  "example_cfg = \<lparr>cfg_noise = False, cfg_random_cnt = 0, cfg_use_nncache = True,
     cfg_dumbpass = False, cfg_exploit_symmetries = False, cfg_symm_nonrandom = True,
     cfg_policy_temp = 1, cfg_lambda = [1 / 2, 1 / 2, 1 / 2, 1 / 2],
     cfg_mu = [0, 0, 0, 0]\<rparr>"

definition example_insert :: "hash \<Rightarrow> Netresult \<Rightarrow> (hash \<times> Netresult) list \<Rightarrow> (hash \<times> Netresult) list" where
  "example_insert h r c = (if map_of c h = None then c @ [(h, r)] else c)"

definition example_env :: "((hash \<times> Netresult) list, nat) env" where
  "example_env = \<lparr>BOARD_SIZE = 19, cfg = example_cfg, default_Netresult = example_default,
     cache_lookup = map_of, cache_insert = example_insert,
     randfix8 = (\<lambda>r. (r mod 8, Suc r)), unif_law = (\<lambda>r. (1 / 2, Suc r)),
     get_output_internal = (\<lambda>state s. Inr (example_result s)),
     eval_with_bonus = (\<lambda>sr xbar xbase. sr_eval sr),
     father_quantile_lambda = 0, father_quantile_mu = 0\<rparr>"

text \<open>
  A state early in a game on the 19 x 19 board, black to move, in which the legal moves
  are the 19 points of the first line; the opening lasts \<open>361 div 6 = 60\<close> moves.
\<close>

definition example_state :: GameState where
  "example_state = \<lparr>get_boardsize = 19, get_hash = 1,
     get_symmetry_hash = (\<lambda>s. 10 + of_nat s), get_movenum = 0,
     opening_moves = (\<lambda>b. b * b div 6), get_komi_adj = 15 / 2, get_to_move = BLACK,
     get_passes = 0, get_alpkt = (\<lambda>a. a), is_symmetry_invariant = (\<lambda>s. s = 0),
     get_vertex = int, is_move_legal = (\<lambda>c v. v < 19), get_sym_move = (\<lambda>v s. v),
     get_index = nat, get_xy = (\<lambda>v. (v mod 19, v div 19)), final_score = 0,
     is_cpu_color = True\<rparr>"

definition example_world :: "(hash \<times> Netresult) list \<Rightarrow> ((hash \<times> Netresult) list, nat) world" where
  "example_world c = \<lparr>w_net = network_with_cache c, w_rng = 0, w_trace = []\<rparr>"

section \<open>UCTNode\<close>

datatype ExpandState = INITIAL | EXPANDING | EXPANDED

text \<open>
  The members of \<open>class UCTNode\<close> that \<open>create_children\<close> and the functions it calls read
  or write (UCTNode.h is not among the sources). A child is the pair a \<open>UCTNodePointer\<close> is
  constructed from: the vertex and the prior. The atomics are plain fields: the model is
  one thread. The counters are C++ \<open>int\<close>s, modelled as \<open>int\<close> (no overflow).
\<close>

record UCTNode =
  m_move :: int
  m_policy :: float32
  m_children :: "(int \<times> float32) list"
  m_visits :: int
  m_virtual_loss :: int
  m_forced :: int
  m_blackevals :: float64
  m_squared_eval_diff :: float32
  m_pi_sum :: float32
  m_net_pi :: float32
  m_net_alpkt :: float32
  m_net_beta :: float32
  m_net_beta2 :: float32
  m_quantile_lambda :: float32
  m_quantile_mu :: float32
  m_quantile_one :: float32
  m_gxgp_sum_lambda :: float32
  m_gp_sum_lambda :: float32
  m_gxgp_sum_mu :: float32
  m_gp_sum_mu :: float32
  m_gxgp_sum_one :: float32
  m_gp_sum_one :: float32
  m_quantile_updates :: int
  m_lambda :: float32
  m_mu :: float32
  m_expand_state :: ExpandState
  m_min_psa_ratio_children :: float32

text \<open>
  \<open>UCTNode::acquire_expanding\<close>, a compare-and-exchange from \<open>INITIAL\<close> to \<open>EXPANDING\<close>.
\<close>

definition acquire_expanding :: "UCTNode \<Rightarrow> bool \<times> UCTNode" where
  "acquire_expanding node =
     (if m_expand_state node = INITIAL then (True, node\<lparr>m_expand_state := EXPANDING\<rparr>)
      else (False, node))"

text \<open>\<open>UCTNode::expand_done\<close> and \<open>UCTNode::expand_cancel\<close>, with their assertions.\<close>

definition expand_done :: "UCTNode \<Rightarrow> failure + UCTNode" where
  "expand_done node =
     (if m_expand_state node = EXPANDING then Inr (node\<lparr>m_expand_state := EXPANDED\<rparr>)
      else Inl AssertionFailed)"

definition expand_cancel :: "UCTNode \<Rightarrow> failure + UCTNode" where
  "expand_cancel node =
     (if m_expand_state node = EXPANDING then Inr (node\<lparr>m_expand_state := INITIAL\<rparr>)
      else Inl AssertionFailed)"

text \<open>\<open>UCTNode::expandable\<close>, with the assertion of its debug build.\<close>

definition expandable :: "UCTNode \<Rightarrow> float32 \<Rightarrow> failure + bool" where
  "expandable node min_psa_ratio =
     (if m_min_psa_ratio_children node = 0 \<and> m_expand_state node = INITIAL
      then Inl AssertionFailed
      else Inr (min_psa_ratio < m_min_psa_ratio_children node))"

text \<open>\<open>UCTNode::get_raw_eval\<close> and \<open>UCTNode::get_avg_pi\<close>.\<close>

definition get_raw_eval :: "UCTNode \<Rightarrow> color \<Rightarrow> int \<Rightarrow> failure + float32" where
  "get_raw_eval node tomove virtual_loss =
     (let visits = m_visits node + virtual_loss in
      if \<not> visits > 0 then Inl AssertionFailed
      else
        let blackeval = m_blackevals node;
            blackeval = (if tomove = WHITE then blackeval + real_of_int virtual_loss else blackeval);
            eval = blackeval / real_of_int visits
        in Inr (if tomove = WHITE then 1 - eval else eval))"

definition get_avg_pi :: "UCTNode \<Rightarrow> color \<Rightarrow> float32" where
  "get_avg_pi node tomove =
     (let visits = real_of_int (m_visits node);
          avg_pi = (if visits > 0.5 then m_pi_sum node / visits else 0.5)
      in if tomove = WHITE then 1 - avg_pi else avg_pi)"

text \<open>\<open>SearchResult::from_eval\<close> and \<open>UCTNode::update\<close>: the evaluation and the node.\<close>

definition from_eval :: "float32 \<Rightarrow> float32 \<Rightarrow> float32 \<Rightarrow> float32 \<Rightarrow> bool \<Rightarrow> SearchResult" where
  "from_eval eval alpkt beta beta2 is_sai =
     \<lparr>sr_eval = eval, sr_alpkt = alpkt, sr_beta = beta, sr_beta2 = beta2, sr_is_sai = is_sai\<rparr>"

definition update :: "('c, 'r) env \<Rightarrow> UCTNode \<Rightarrow> SearchResult \<Rightarrow> bool \<Rightarrow> float32 \<times> UCTNode" where
  "update e node result forced =
     (let eval = (if sr_is_sai result
                  then eval_with_bonus e result (father_quantile_lambda e) (father_quantile_mu e)
                  else sr_eval result);
          old_eval = m_blackevals node;
          old_visits = m_visits node;
          old_delta = (if old_visits > 0 then eval - old_eval / real_of_int old_visits else 0);
          new_delta = eval - (old_eval + eval) / real_of_int (old_visits + 1);
          delta = old_delta * new_delta
      in (eval,
          node\<lparr>m_visits := old_visits + 1,
               m_blackevals := m_blackevals node + eval,
               m_squared_eval_diff := m_squared_eval_diff node + delta,
               m_forced := (if forced then m_forced node + 1 else m_forced node),
               m_pi_sum := m_pi_sum node + sr_eval result\<rparr>))"

text \<open>
  \<open>UCTNode::update_all_quantiles\<close>; \<open>get_avg_pi()\<close> is called without an argument, for
  black, and \<open>get_lambda()\<close>, \<open>get_mu()\<close> return \<open>m_lambda\<close>, \<open>m_mu\<close>.
\<close>

definition update_all_quantiles :: "UCTNode \<Rightarrow> float32 \<Rightarrow> float32 \<Rightarrow> float32 \<Rightarrow> UCTNode" where
  "update_all_quantiles node new_alpkt new_beta new_beta2 =
     (let avg_pi = get_avg_pi node BLACK;
          old_q_lambda = m_quantile_lambda node;
          old_q_mu = m_quantile_mu node;
          old_q_one = m_quantile_one node;
          new_visits = m_quantile_updates node + 1;
          (gxgp_sum_lambda, gp_sum_lambda) =
            update_gxx_sums (m_gxgp_sum_lambda node) (m_gp_sum_lambda node) old_q_lambda
              new_alpkt new_beta new_beta2;
          (gxgp_sum_mu, gp_sum_mu) =
            update_gxx_sums (m_gxgp_sum_mu node) (m_gp_sum_mu node) old_q_mu
              new_alpkt new_beta new_beta2;
          (gxgp_sum_one, gp_sum_one) =
            update_gxx_sums (m_gxgp_sum_one node) (m_gp_sum_one node) old_q_one
              new_alpkt new_beta new_beta2
      in node\<lparr>m_quantile_updates := new_visits,
              m_gxgp_sum_lambda := gxgp_sum_lambda, m_gp_sum_lambda := gp_sum_lambda,
              m_gxgp_sum_mu := gxgp_sum_mu, m_gp_sum_mu := gp_sum_mu,
              m_gxgp_sum_one := gxgp_sum_one, m_gp_sum_one := gp_sum_one,
              m_quantile_lambda :=
                update_quantile (m_quantile_lambda node) gxgp_sum_lambda gp_sum_lambda
                  (m_lambda node) new_visits avg_pi new_alpkt new_beta new_beta2,
              m_quantile_mu :=
                update_quantile (m_quantile_mu node) gxgp_sum_mu gp_sum_mu
                  (m_mu node) new_visits avg_pi new_alpkt new_beta new_beta2,
              m_quantile_one :=
                update_quantile (m_quantile_one node) gxgp_sum_one gp_sum_one
                  1 new_visits avg_pi new_alpkt new_beta new_beta2\<rparr>)"

text \<open>\<open>UCTNode::set_lambda_mu\<close>; \<open>get_raw_eval\<close> is called with no virtual loss.\<close>

definition set_lambda_mu :: "('c, 'r) env \<Rightarrow> UCTNode \<Rightarrow> GameState \<Rightarrow> failure + UCTNode" where
  "set_lambda_mu e node state =
     (case get_raw_eval node (get_to_move state) 0 of
        Inl ex \<Rightarrow> Inl ex
      | Inr raw_eval \<Rightarrow>
          let i = (if \<not> is_cpu_color state then 2 else 0);
              i = (if raw_eval < 0.5 then i + 1 else i)
          in Inr (node\<lparr>m_lambda := cfg_lambda (cfg e) ! i, m_mu := cfg_mu (cfg e) ! i\<rparr>))"

text \<open>
  \<open>UCTNode::link_nodelist\<close>. \<open>std::stable_sort\<close> on the reverse iterators sorts the
  reversed list in ascending order of the pairs (prior first, then vertex), which leaves
  the list in descending order; \<open>reserve\<close> changes nothing that is modelled.
\<close>

definition link_step ::
  "float32 \<Rightarrow> float32 \<Rightarrow> float32 \<times> int \<Rightarrow> (int \<times> float32) list \<times> int \<times> bool
     \<Rightarrow> (int \<times> float32) list \<times> int \<times> bool" where
  "link_step new_min_psa old_min_psa node acc =
     (let (children, nodecount, skipped_children) = acc in
      if fst node < new_min_psa then (children, nodecount, True)
      else if fst node < old_min_psa then (children @ [(snd node, fst node)], nodecount + 1, skipped_children)
      else (children, nodecount, skipped_children))"

definition link_nodelist ::
  "UCTNode \<Rightarrow> int \<Rightarrow> (float32 \<times> int) list \<Rightarrow> float32 \<Rightarrow> failure + UCTNode \<times> int" where
  "link_nodelist node nodecount nodelist min_psa_ratio =
     (if \<not> min_psa_ratio < m_min_psa_ratio_children node then Inl AssertionFailed
      else if nodelist = [] then Inr (node, nodecount)
      else
        let nodelist = rev (sort (rev nodelist));
            max_psa = fst (hd nodelist);
            old_min_psa = max_psa * m_min_psa_ratio_children node;
            new_min_psa = max_psa * min_psa_ratio;
            (children, nodecount, skipped_children) =
              fold (link_step new_min_psa old_min_psa) nodelist (m_children node, nodecount, False)
        in Inr (node\<lparr>m_children := children,
                     m_min_psa_ratio_children := (if skipped_children then min_psa_ratio else 0)\<rparr>,
                nodecount))"

section \<open>UCTNode: create_children\<close>

text \<open>
  \<open>FastBoard::PASS\<close> (FastBoard.h is not among the sources; \<open>-1\<close> is its value in Leela
  Zero, and no theorem below depends on the value) and
  \<open>std::numeric_limits<float>::min()\<close>, the least positive normal float.
\<close>

definition PASS :: int where
  "PASS = - 1"

definition FLT_MIN :: float32 where
  "FLT_MIN = 1 / 2 ^ 126"

text \<open>The stabilizer subgroup: the identity and, if configured, the symmetries of the position.\<close>

definition stabilizer_subgroup :: "('c, 'r) env \<Rightarrow> GameState \<Rightarrow> nat list" where
  "stabilizer_subgroup e state =
     filter (\<lambda>i. i = 0 \<or> (cfg_exploit_symmetries (cfg e) \<and> is_symmetry_invariant state i)) [0..<8]"

text \<open>
  The body of the loop over the stabilizer subgroup, for the images of one vertex. The
  state of the loop: \<open>taken_already\<close> (the set of the indices marked), \<open>taken_policy\<close>,
  \<open>max_u\<close>, \<open>chosen_vertex\<close> and the random generator. \<open>get_index\<close> returns an index
  of the board, so that \<open>taken_already[j]\<close> and \<open>raw_netlist.policy[j]\<close> are in range.
\<close>

definition symmetry_step ::
  "('c, 'r) env \<Rightarrow> GameState \<Rightarrow> Netresult \<Rightarrow> int \<Rightarrow> nat
     \<Rightarrow> nat set \<times> float32 \<times> float32 \<times> int \<times> 'r \<Rightarrow> nat set \<times> float32 \<times> float32 \<times> int \<times> 'r" where
  "symmetry_step e state raw_netlist vertex symm acc =
     (let (taken_already, taken_policy, max_u, chosen_vertex, rng) = acc;
          j_vertex = get_sym_move state vertex symm;
          j = get_index state j_vertex
      in if j \<notin> taken_already then
           let (u, rng) =
                 (if cfg_symm_nonrandom (cfg e)
                  then (let p = get_xy state j_vertex
                        in (real_of_int (fst p) + 2.001 * real_of_int (snd p), rng))
                  else unif_law e rng)
           in (insert j taken_already, taken_policy + nr_policy raw_netlist ! j,
               if u > max_u then u else max_u,
               if u > max_u then j_vertex else chosen_vertex, rng)
         else (taken_already, taken_policy, max_u, chosen_vertex, rng))"

text \<open>
  The body of the loop over the intersections. The state of the loop: \<open>taken_already\<close>,
  \<open>nodelist\<close>, \<open>legal_sum\<close> and the random generator.
\<close>

definition vertex_step ::
  "('c, 'r) env \<Rightarrow> GameState \<Rightarrow> Netresult \<Rightarrow> nat
     \<Rightarrow> nat set \<times> (float32 \<times> int) list \<times> float32 \<times> 'r
     \<Rightarrow> nat set \<times> (float32 \<times> int) list \<times> float32 \<times> 'r" where
  "vertex_step e state raw_netlist i acc =
     (let (taken_already, nodelist, legal_sum, rng) = acc;
          vertex = get_vertex state i
      in if is_move_legal state (get_to_move state) vertex \<and> i \<notin> taken_already then
           let (taken_already, taken_policy, max_u, chosen_vertex, rng) =
                 fold (symmetry_step e state raw_netlist vertex) (stabilizer_subgroup e state)
                   (taken_already, 0, 0, vertex, rng);
               warm_policy = taken_policy powr (1 / cfg_policy_temp (cfg e))
           in (taken_already, nodelist @ [(warm_policy, chosen_vertex)], legal_sum + warm_policy, rng)
         else (taken_already, nodelist, legal_sum, rng))"

definition board_moves ::
  "('c, 'r) env \<Rightarrow> GameState \<Rightarrow> Netresult \<Rightarrow> 'r
     \<Rightarrow> nat set \<times> (float32 \<times> int) list \<times> float32 \<times> 'r" where
  "board_moves e state raw_netlist rng =
     fold (vertex_step e state raw_netlist) [0..<NUM_INTERSECTIONS e] ({}, [], 0, rng)"

text \<open>
  \<open>allow_pass\<close>, as \<open>create_children\<close> computes it from the list of the board moves, and
  the pass appended to the list. The winrate is compared with the single-precision
  constant \<open>0.8f\<close>, which is \<open>13421773 / 2^24\<close>, a little above \<open>4/5\<close>.
\<close>

definition FLT_0_8 :: float32 where
  "FLT_0_8 = 13421773 / 16777216"

definition allow_pass :: "('c, 'r) env \<Rightarrow> GameState \<Rightarrow> Netresult \<Rightarrow> (float32 \<times> int) list \<Rightarrow> bool" where
  "allow_pass e state raw_netlist nodelist =
     (let stm_eval = nr_value raw_netlist;
          allow = cfg_dumbpass (cfg e);
          allow = (if int (length nodelist) \<le> max 5 (int (BOARD_SIZE e)) then True else allow);
          allow = (if \<not> allow \<and> stm_eval > FLT_0_8
                   then (let relative_score =
                               (if get_to_move state = BLACK then 1 else - 1) * final_score state
                         in if relative_score \<ge> 0 then True else allow)
                   else allow)
      in allow)"

definition add_pass ::
  "('c, 'r) env \<Rightarrow> GameState \<Rightarrow> Netresult \<Rightarrow> (float32 \<times> int) list \<times> float32
     \<Rightarrow> (float32 \<times> int) list \<times> float32" where
  "add_pass e state raw_netlist nl =
     (let (nodelist, legal_sum) = nl in
      if allow_pass e state raw_netlist nodelist then
        let warm_pass_policy = nr_policy_pass raw_netlist powr (1 / cfg_policy_temp (cfg e))
        in (nodelist @ [(warm_pass_policy, PASS)], legal_sum + warm_pass_policy)
      else (nodelist, legal_sum))"

text \<open>The renormalisation of the priors.\<close>

definition renormalize :: "(float32 \<times> int) list \<Rightarrow> float32 \<Rightarrow> (float32 \<times> int) list" where
  "renormalize nodelist legal_sum =
     (if legal_sum > FLT_MIN then map (\<lambda>node. (fst node / legal_sum, snd node)) nodelist
      else
        let uniform_prob = 1 / real (length nodelist)
        in map (\<lambda>node. (uniform_prob, snd node)) nodelist)"

text \<open>
  What a call of \<open>create_children\<close> can change: the node, the world, and what it is given
  by reference, \<open>nodecount\<close>, \<open>value\<close>, \<open>alpkt\<close>, \<open>beta\<close> and \<open>beta2\<close>.
\<close>

record ('c, 'r) cc_state =
  cc_node :: UCTNode
  cc_world :: "('c, 'r) world"
  cc_nodecount :: int
  cc_value :: float32
  cc_alpkt :: float32
  cc_beta :: float32
  cc_beta2 :: float32

text \<open>
  \<open>UCTNode::create_children\<close> from "DCNN returns value as side to move" to its end: the
  network has returned \<open>raw_netlist\<close>.
\<close>

definition expand_node ::
  "('c, 'r) env \<Rightarrow> GameState \<Rightarrow> float32 \<Rightarrow> Netresult \<Rightarrow> ('c, 'r) cc_state
     \<Rightarrow> (failure + bool) \<times> ('c, 'r) cc_state" where
  "expand_node e state min_psa_ratio raw_netlist cc =
     (let stm_eval = nr_value raw_netlist;
          to_move = get_to_move state;
          sai = m_value_head_sai (w_net (cc_world cc));
          value = (if to_move = BLACK then stm_eval else 1 - stm_eval);
          alpkt = (if sai then get_alpkt state (nr_alpha raw_netlist)
                   else if to_move = BLACK then nr_alpha raw_netlist else - nr_alpha raw_netlist);
          beta = (if sai then nr_beta raw_netlist else 1);
          beta2 = (if sai then nr_beta2 raw_netlist else 1);
          node = (cc_node cc)\<lparr>m_net_alpkt := alpkt, m_net_beta := beta, m_net_beta2 := beta2,
                               m_net_pi := value\<rparr>;
          (taken_already, nodelist, legal_sum, rng) =
            board_moves e state raw_netlist (w_rng (cc_world cc));
          (nodelist, legal_sum) = add_pass e state raw_netlist (nodelist, legal_sum);
          nodelist = renormalize nodelist legal_sum;
          cc = cc\<lparr>cc_world := (cc_world cc)\<lparr>w_rng := rng\<rparr>,
                  cc_value := value, cc_alpkt := alpkt, cc_beta := beta, cc_beta2 := beta2\<rparr>
      in case link_nodelist node (cc_nodecount cc) nodelist min_psa_ratio of
           Inl ex \<Rightarrow> (Inl ex, cc\<lparr>cc_node := node\<rparr>)
         | Inr linked \<Rightarrow>
             let updated = snd (update e (fst linked) (from_eval value alpkt beta beta2 sai) False);
                 cc = cc\<lparr>cc_nodecount := snd linked\<rparr>
             in case (if sai
                      then (case set_lambda_mu e updated state of
                              Inl ex \<Rightarrow> Inl ex
                            | Inr node \<Rightarrow> Inr (update_all_quantiles node alpkt beta beta2))
                      else Inr updated) of
                  Inl ex \<Rightarrow> (Inl ex, cc\<lparr>cc_node := updated\<rparr>)
                | Inr node \<Rightarrow>
                    (case expand_done node of
                       Inl ex \<Rightarrow> (Inl ex, cc\<lparr>cc_node := node\<rparr>)
                     | Inr node \<Rightarrow> (Inr True, cc\<lparr>cc_node := node\<rparr>)))"

text \<open>
  \<open>UCTNode::create_children\<close>. The \<open>catch (NetworkHaltException&)\<close> cancels the expansion
  and throws again; another failure leaves the function as it is raised.
\<close>

definition create_children ::
  "('c, 'r) env \<Rightarrow> GameState \<Rightarrow> float32 \<Rightarrow> ('c, 'r) cc_state
     \<Rightarrow> (failure + bool) \<times> ('c, 'r) cc_state" where
  "create_children e state min_psa_ratio cc =
     (if get_passes state \<ge> 2 then (Inr False, cc)
      else if \<not> fst (acquire_expanding (cc_node cc)) then (Inr False, cc)
      else
        let cc = cc\<lparr>cc_node := snd (acquire_expanding (cc_node cc))\<rparr> in
        case expandable (cc_node cc) min_psa_ratio of
          Inl ex \<Rightarrow> (Inl ex, cc)
        | Inr can_expand \<Rightarrow>
            if \<not> can_expand then
              (case expand_done (cc_node cc) of
                 Inl ex \<Rightarrow> (Inl ex, cc)
               | Inr node \<Rightarrow> (Inr False, cc\<lparr>cc_node := node\<rparr>))
            else
              let (out, w) = get_output e state RANDOM_SYMMETRY (- 1)
                               (cfg_use_nncache (cfg e)) (cfg_use_nncache (cfg e)) (cc_world cc);
                  cc = cc\<lparr>cc_world := w\<rparr>
              in case out of
                   Inl ex \<Rightarrow>
                     if ex = NetworkHaltException then
                       (case expand_cancel (cc_node cc) of
                          Inl ex' \<Rightarrow> (Inl ex', cc)
                        | Inr node \<Rightarrow> (Inl NetworkHaltException, cc\<lparr>cc_node := node\<rparr>))
                     else (Inl ex, cc)
                 | Inr raw_netlist \<Rightarrow> expand_node e state min_psa_ratio raw_netlist cc)"

text \<open>A fresh node and the state of a first call of \<open>create_children\<close>, for the examples.\<close>

definition fresh_node :: UCTNode where
  "fresh_node = \<lparr>m_move = 0, m_policy = 1, m_children = [], m_visits = 0, m_virtual_loss = 0,
     m_forced = 0, m_blackevals = 0, m_squared_eval_diff = 0, m_pi_sum = 0, m_net_pi = 0,
     m_net_alpkt = 0, m_net_beta = 1, m_net_beta2 = - 1, m_quantile_lambda = 0,
     m_quantile_mu = 0, m_quantile_one = 0, m_gxgp_sum_lambda = 0, m_gp_sum_lambda = 0,
     m_gxgp_sum_mu = 0, m_gp_sum_mu = 0, m_gxgp_sum_one = 0, m_gp_sum_one = 0,
     m_quantile_updates = 0, m_lambda = 0, m_mu = 0, m_expand_state = INITIAL,
     m_min_psa_ratio_children = 2\<rparr>"

definition fresh_call :: "((hash \<times> Netresult) list, nat) cc_state" where
  "fresh_call = \<lparr>cc_node = fresh_node, cc_world = example_world [], cc_nodecount = 0,
     cc_value = 0, cc_alpkt = 0, cc_beta = 0, cc_beta2 = 0\<rparr>"

text \<open>The example environment with the backend drained: every forward pass is halted.\<close>

definition halted_env :: "((hash \<times> Netresult) list, nat) env" where
  "halted_env = example_env\<lparr>get_output_internal := (\<lambda>state s. Inl NetworkHaltException)\<rparr>"

text \<open>
  The rule for offering the pass as the specification words it, for comparison with
  \<open>allow_pass\<close>: the dumb-pass flag, or fewer than \<open>max(5, BOARD_SIZE)\<close> legal board moves,
  or a winrate above 0.8 with the side to move ahead on the board.
\<close>

definition legal_moves :: "('c, 'r) env \<Rightarrow> GameState \<Rightarrow> nat list" where
  "legal_moves e state =
     filter (\<lambda>i. is_move_legal state (get_to_move state) (get_vertex state i))
       [0..<NUM_INTERSECTIONS e]"

definition allow_pass_spec :: "('c, 'r) env \<Rightarrow> GameState \<Rightarrow> Netresult \<Rightarrow> bool" where
  "allow_pass_spec e state raw_netlist \<longleftrightarrow>
     cfg_dumbpass (cfg e)
     \<or> int (length (legal_moves e state)) < max 5 (int (BOARD_SIZE e))
     \<or> (nr_value raw_netlist > 0.8
        \<and> (if get_to_move state = BLACK then 1 else - 1) * final_score state > 0)"

section \<open>NNCache, from the specification\<close>





section \<open>The sigmoid is symmetric\<close>

lemma sigmoid3_bonus0:
  "sigmoid3 alpha beta 0 =
     (let arg = beta * alpha;
          ret = (if \<bar>arg\<bar> > 30 then exp (- \<bar>arg\<bar>) else 1 / (1 + exp \<bar>arg\<bar>))
      in if arg < 0 then (ret, 1 - ret) else (1 - ret, ret))"
  by (simp add: sigmoid3_def sigmoid_def Let_def)

lemma sigmoid3_first_sum:
  "fst (sigmoid3 alpha beta 0) + fst (sigmoid3 (- alpha) beta 0) = 1"
proof -
  let ?ret = "\<lambda>a::real. if a > 30 then exp (- a) else 1 / (1 + exp a)"
  let ?F = "\<lambda>arg::real. if arg < 0 then ?ret \<bar>arg\<bar> else 1 - ?ret \<bar>arg\<bar>"
  define x where "x = beta * alpha"
  have pos: "fst (sigmoid3 alpha beta 0) = ?F x"
    by (simp add: sigmoid3_bonus0 Let_def x_def)
  have neg: "fst (sigmoid3 (- alpha) beta 0) = ?F (- x)"
    by (simp add: sigmoid3_bonus0 Let_def x_def)
  have "?F x + ?F (- x) = 1"
    by (cases "x < 0"; cases "x = 0"; simp)
  with pos neg show ?thesis by simp
qed

text \<open>
  C8. For every \<open>alpha\<close> and \<open>beta\<close>, with bonus 0 and \<open>beta2\<close> at its default \<open>-1\<close>,
  the first components of \<open>sigmoid(alpha, beta, 0)\<close> and \<open>sigmoid(-alpha, beta, 0)\<close> add up
  to 1 within \<open>1e-6\<close> (on the reals they add up to exactly 1).
\<close>

theorem sigmoid_symmetric_sum:
  "\<bar>fst (sigmoid alpha beta 0 (- 1)) + fst (sigmoid (- alpha) beta 0 (- 1)) - 1\<bar> \<le> 1 / 1000000"
  using sigmoid3_first_sum [of alpha beta] by (simp add: sigmoid3_def)

section \<open>The format version\<close>

lemma high_bits_iff: "(\<exists>n\<ge>9. bit (v::int) n) \<longleftrightarrow> \<not> (0 \<le> v \<and> v < 512)"
proof -
  have A: "take_bit 9 v = v" if clear: "\<forall>n\<ge>9. \<not> bit v n"
  proof (rule bit_eqI)
    fix n
    from clear have "bit v n \<Longrightarrow> n < 9"
      by (meson not_le)
    then show "bit (take_bit 9 v) n \<longleftrightarrow> bit v n"
      unfolding bit_take_bit_iff by blast
  qed
  have B: "\<not> bit v n" if eq: "take_bit 9 v = v" and n: "9 \<le> n" for n
  proof -
    have "\<not> bit (take_bit 9 v) n"
      unfolding bit_take_bit_iff using n by linarith
    then show ?thesis
      unfolding eq .
  qed
  from A B have "(\<forall>n\<ge>9. \<not> bit v n) \<longleftrightarrow> take_bit 9 v = v"
    by blast
  also have "\<dots> \<longleftrightarrow> 0 \<le> v \<and> v < 2 ^ 9"
    by (rule take_bit_int_eq_self_iff)
  finally have "(\<forall>n\<ge>9. \<not> bit v n) \<longleftrightarrow> 0 \<le> v \<and> v < 512"
    by simp
  then show ?thesis by blast
qed

lemma and_511: "(v::int) AND 511 = take_bit 9 v"
  using take_bit_eq_mask [of 9 v] by (simp add: mask_eq_exp_minus_1)

lemma extra_bits_iff: "(v::int) - (v AND 511) \<noteq> 0 \<longleftrightarrow> \<not> (0 \<le> v \<and> v < 512)"
proof -
  have "v - (v AND 511) = 0 \<longleftrightarrow> take_bit 9 v = v"
    by (auto simp: and_511)
  also have "\<dots> \<longleftrightarrow> 0 \<le> v \<and> v < 2 ^ 9"
    by (rule take_bit_int_eq_self_iff)
  finally show ?thesis by simp
qed

lemma and_16_iff: "(v::int) AND 16 \<noteq> 0 \<longleftrightarrow> bit v 4"
  using and_exp_eq_0_iff_not_bit [of v 4] by simp

lemma and_64_iff: "(v::int) AND 64 \<noteq> 0 \<longleftrightarrow> bit v 6"
  using and_exp_eq_0_iff_not_bit [of v 6] by simp

lemma and_128_iff: "(v::int) AND 128 \<noteq> 0 \<longleftrightarrow> bit v 7"
  using and_exp_eq_0_iff_not_bit [of v 7] by simp

lemma and_256_iff: "(v::int) AND 256 \<noteq> 0 \<longleftrightarrow> bit v 8"
  using and_exp_eq_0_iff_not_bit [of v 8] by simp

lemma extract_int_small:
  "0 \<le> v \<Longrightarrow> v < 512 \<Longrightarrow> extract_int (Number v) = (False, v)"
  by (simp add: extract_int_def)

lemma extract_int_other:
  "\<not> (0 \<le> v \<and> v < 512) \<Longrightarrow>
     fst (extract_int (Number v)) \<or> \<not> (0 \<le> snd (extract_int (Number v)) \<and> snd (extract_int (Number v)) < 512)"
  by (simp add: extract_int_def)

lemma load_network_file_Number:
  "load_network_file load_v1 (Buffer (Number v)) net =
     (let iss_fail = fst (extract_int (Number v));
          format_version = snd (extract_int (Number v));
          net1 = net\<lparr>m_adv_features := bit format_version 4,
                     m_chainlibs_features := bit format_version 6,
                     m_chainsize_features := bit format_version 7,
                     m_quartile_encoding := bit format_version 8\<rparr>
      in if iss_fail \<or> (format_version AND 3 \<noteq> 1 \<and> format_version AND 3 \<noteq> 2)
              \<or> \<not> (0 \<le> format_version \<and> format_version < 512)
         then (Inl WrongVersion, net1)
         else (if fst (load_v1 (net1\<lparr>m_value_head_not_stm := (format_version AND 3 = 2)\<rparr>)
                          format_version)
               then Inl ErrorInReading else Inr (),
               snd (load_v1 (net1\<lparr>m_value_head_not_stm := (format_version AND 3 = 2)\<rparr>)
                          format_version)))"
  unfolding load_network_file_def Let_def case_prod_beta
    and_16_iff and_64_iff and_128_iff and_256_iff extra_bits_iff
  by simp

lemma load_network_file_wrong_version:
  "fst (load_network_file load_v1 (Buffer (Number v)) net) = Inl WrongVersion
     \<longleftrightarrow> (v AND 3 \<noteq> 1 \<and> v AND 3 \<noteq> 2) \<or> \<not> (0 \<le> v \<and> v < 512)"
proof (cases "0 \<le> v \<and> v < 512")
  case True
  then show ?thesis
    by (simp add: load_network_file_Number extract_int_small Let_def)
next
  case False
  let ?fv = "snd (extract_int (Number v))"
  from extract_int_other [OF False]
  have c: "fst (extract_int (Number v)) \<or> (?fv AND 3 \<noteq> 1 \<and> ?fv AND 3 \<noteq> 2)
             \<or> \<not> (0 \<le> ?fv \<and> ?fv < 512)"
    by blast
  have "fst (load_network_file load_v1 (Buffer (Number v)) net) = Inl WrongVersion"
    unfolding load_network_file_Number Let_def if_P [OF c] by (rule fst_conv)
  with False show ?thesis by blast
qed

lemma load_network_file_proceeds:
  assumes "0 \<le> v" "v < 512" "v AND 3 = 1 \<or> v AND 3 = 2"
  shows "load_network_file load_v1 (Buffer (Number v)) net =
     (let r = load_v1 (net\<lparr>m_adv_features := bit v 4, m_chainlibs_features := bit v 6,
                            m_chainsize_features := bit v 7, m_quartile_encoding := bit v 8,
                            m_value_head_not_stm := (v AND 3 = 2)\<rparr>) v
      in (if fst r then Inl ErrorInReading else Inr (), snd r))"
  using assms
  by (auto simp add: load_network_file_Number extract_int_small Let_def)

text \<open>
  C4. Loading a weights file whose first line is the integer \<open>v\<close> fails as "wrong
  version" exactly when \<open>v & 3\<close> is neither 1 nor 2 or a bit of \<open>v\<close> at a position
  \<open>\<ge> 9\<close> is set (bits of the two's complement of \<open>v\<close>); otherwise the rest of the file is
  loaded, by \<open>load_v1_network\<close>, with \<open>adv_features\<close> bit 4, \<open>chainlibs_features\<close>
  bit 6, \<open>chainsize_features\<close> bit 7, \<open>quartile_encoding\<close> bit 8 of \<open>v\<close>, and the
  value head marked as black's point of view (ELF) exactly when \<open>v & 3 = 2\<close>.
\<close>

theorem format_version_check:
  "(fst (load_network_file load_v1 (Buffer (Number v)) net) = Inl WrongVersion
      \<longleftrightarrow> (v AND 3 \<noteq> 1 \<and> v AND 3 \<noteq> 2) \<or> (\<exists>n\<ge>9. bit v n)) \<and>
   (\<not> ((v AND 3 \<noteq> 1 \<and> v AND 3 \<noteq> 2) \<or> (\<exists>n\<ge>9. bit v n)) \<longrightarrow>
      load_network_file load_v1 (Buffer (Number v)) net =
        (let r = load_v1 (net\<lparr>m_adv_features := bit v 4, m_chainlibs_features := bit v 6,
                               m_chainsize_features := bit v 7, m_quartile_encoding := bit v 8,
                               m_value_head_not_stm := (v AND 3 = 2)\<rparr>) v
         in (if fst r then Inl ErrorInReading else Inr (), snd r)))"
proof -
  have hi: "(\<exists>n\<ge>9. bit v n) = (\<not> (0 \<le> v \<and> v < 512))"
    by (rule high_bits_iff)
  have 1: "fst (load_network_file load_v1 (Buffer (Number v)) net) = Inl WrongVersion
      \<longleftrightarrow> (v AND 3 \<noteq> 1 \<and> v AND 3 \<noteq> 2) \<or> (\<exists>n\<ge>9. bit v n)"
    unfolding hi by (rule load_network_file_wrong_version)
  have 2: "load_network_file load_v1 (Buffer (Number v)) net =
        (let r = load_v1 (net\<lparr>m_adv_features := bit v 4, m_chainlibs_features := bit v 6,
                               m_chainsize_features := bit v 7, m_quartile_encoding := bit v 8,
                               m_value_head_not_stm := (v AND 3 = 2)\<rparr>) v
         in (if fst r then Inl ErrorInReading else Inr (), snd r))"
    if "\<not> ((v AND 3 \<noteq> 1 \<and> v AND 3 \<noteq> 2) \<or> (\<exists>n\<ge>9. bit v n))"
  proof -
    from that have "\<not> ((v AND 3 \<noteq> 1 \<and> v AND 3 \<noteq> 2) \<or> \<not> (0 \<le> v \<and> v < 512))"
      unfolding hi .
    then have "0 \<le> v" "v < 512" "v AND 3 = 1 \<or> v AND 3 = 2"
      by blast+
    then show ?thesis
      by (rule load_network_file_proceeds)
  qed
  from 1 2 show ?thesis by blast
qed

theorem format_version_check_witness:
  "load_network_file (\<lambda>net fv. (False, net)) (Buffer (Number 18)) fresh_network =
     (Inr (), fresh_network\<lparr>m_adv_features := True, m_value_head_not_stm := True\<rparr>) \<and>
   fst (load_network_file (\<lambda>net fv. (False, net)) (Buffer (Number 19)) fresh_network) = Inl WrongVersion \<and>
   fst (load_network_file (\<lambda>net fv. (False, net)) (Buffer (Number 1041)) fresh_network) = Inl WrongVersion"
proof -
  have lo: "\<not> (\<exists>n\<ge>9. bit (18::int) n)" "\<not> (\<exists>n\<ge>9. bit (19::int) n)"
    unfolding high_bits_iff by simp_all
  have hi: "\<exists>n\<ge>9. bit (1041::int) n"
    unfolding high_bits_iff by simp
  have and3: "(18::int) AND 3 = 2" "(19::int) AND 3 = 3"
    by simp_all
  have bits: "bit (18::int) 4" "\<not> bit (18::int) 6" "\<not> bit (18::int) 7" "\<not> bit (18::int) 8"
    by simp_all
  note inst = format_version_check [where ?load_v1.0 = "\<lambda>net fv. (False, net)" and net = fresh_network]
  have 1: "load_network_file (\<lambda>net fv. (False, net)) (Buffer (Number 18)) fresh_network =
     (Inr (), fresh_network\<lparr>m_adv_features := True, m_value_head_not_stm := True\<rparr>)"
    using inst [of 18] lo(1) by (simp add: and3 bits fresh_network_def network_with_cache_def)
  have 2: "fst (load_network_file (\<lambda>net fv. (False, net)) (Buffer (Number 19)) fresh_network) = Inl WrongVersion"
    using inst [of 19] by (simp add: and3)
  have 3: "fst (load_network_file (\<lambda>net fv. (False, net)) (Buffer (Number 1041)) fresh_network) = Inl WrongVersion"
    using inst [of 1041] hi by blast
  from 1 2 3 show ?thesis by blast
qed

section \<open>Folding the biases into the batch-norm layers\<close>

lemma biases_into_means_Suc:
  "biases_into_means (Suc n) b m =
     (case biases_into_means n b m of None \<Rightarrow> None | Some bm \<Rightarrow> bias_into_mean bm n)"
  by (simp add: biases_into_means_def)

lemma biases_into_means_result:
  "n \<le> length b \<Longrightarrow> n \<le> length m \<Longrightarrow>
     \<exists>b' m'. biases_into_means n b m = Some (b', m') \<and>
       length b' = length b \<and> length m' = length m \<and>
       (\<forall>j<n. b' ! j = 0 \<and> m' ! j = m ! j - b ! j) \<and>
       (\<forall>j\<ge>n. b' ! j = b ! j \<and> m' ! j = m ! j)"
proof (induction n)
  case 0
  then show ?case by (simp add: biases_into_means_def)
next
  case (Suc n)
  then obtain b' m' where prev: "biases_into_means n b m = Some (b', m')"
    and len: "length b' = length b" "length m' = length m"
    and fused: "\<forall>j<n. b' ! j = 0 \<and> m' ! j = m ! j - b ! j"
    and rest: "\<forall>j\<ge>n. b' ! j = b ! j \<and> m' ! j = m ! j"
    by fastforce
  from Suc.prems len have n: "n < length b'" "n < length m'" by simp_all
  from rest have at_n: "b' ! n = b ! n" "m' ! n = m ! n" by simp_all
  have step: "biases_into_means (Suc n) b m = Some (b'[n := 0], m'[n := m ! n - b ! n])"
    using n by (simp add: biases_into_means_Suc prev bias_into_mean_def at_n)
  have "\<forall>j<Suc n. (b'[n := 0]) ! j = 0 \<and> (m'[n := m ! n - b ! n]) ! j = m ! j - b ! j"
    using n fused by (simp add: nth_list_update less_Suc_eq)
  moreover have "\<forall>j\<ge>Suc n. (b'[n := 0]) ! j = b ! j \<and> (m'[n := m ! n - b ! n]) ! j = m ! j"
    using rest by (simp add: nth_list_update)
  ultimately show ?case
    using step len by simp
qed


lemma tower_consistent_nth:
  "tower_consistent b m v \<Longrightarrow> i < length b \<Longrightarrow>
     length (m ! i) = length (b ! i) \<and> length (v ! i) = length (b ! i)"
  by (simp add: tower_consistent_def list_all_iff)

lemma tower_consistent_length:
  "tower_consistent b m v \<Longrightarrow> length m = length b \<and> length v = length b"
  by (simp add: tower_consistent_def)

lemma fuse_tower_prefix:
  assumes cons: "tower_consistent b m v"
  shows "k \<le> length b \<Longrightarrow>
     \<exists>b' m' v'.
       fold (\<lambda>i acc. case acc of None \<Rightarrow> None | Some t \<Rightarrow> fuse_layer flag t i) [0..<k]
         (Some (b, m, v)) = Some (b', m', v') \<and>
       length b' = length b \<and> length m' = length b \<and> length v' = length b \<and>
       (\<forall>i<k. length (b' ! i) = length (b ! i) \<and> length (m' ! i) = length (b ! i) \<and>
              v' ! i = process_bn_var (v ! i) \<and>
              (\<forall>j<length (b ! i). b' ! i ! j = 0 \<and> m' ! i ! j = m ! i ! j - b ! i ! j)) \<and>
       (\<forall>i\<ge>k. b' ! i = b ! i \<and> m' ! i = m ! i \<and> v' ! i = v ! i)"
proof (induction k)
  case 0
  with tower_consistent_length [OF cons] show ?case by simp
next
  case (Suc k)
  let ?step = "\<lambda>i acc. case acc of None \<Rightarrow> None | Some t \<Rightarrow> fuse_layer flag t i"
  from Suc obtain b' m' v' where prev: "fold ?step [0..<k] (Some (b, m, v)) = Some (b', m', v')"
    and len: "length b' = length b" "length m' = length b" "length v' = length b"
    and fused: "\<forall>i<k. length (b' ! i) = length (b ! i) \<and> length (m' ! i) = length (b ! i) \<and>
              v' ! i = process_bn_var (v ! i) \<and>
              (\<forall>j<length (b ! i). b' ! i ! j = 0 \<and> m' ! i ! j = m ! i ! j - b ! i ! j)"
    and rest: "\<forall>i\<ge>k. b' ! i = b ! i \<and> m' ! i = m ! i \<and> v' ! i = v ! i"
    by fastforce
  from Suc.prems have k: "k < length b" by simp
  from rest have at_k: "b' ! k = b ! k" "m' ! k = m ! k" "v' ! k = v ! k" by simp_all
  from tower_consistent_nth [OF cons k]
  have lk: "length (m ! k) = length (b ! k)" "length (v ! k) = length (b ! k)" by simp_all
  have bound: "(if flag then length (m ! k) else length (b ! k)) = length (b ! k)"
    using lk by simp
  from biases_into_means_result [of "length (b ! k)" "b ! k" "m ! k"] lk
  obtain bk mk where inner: "biases_into_means (length (b ! k)) (b ! k) (m ! k) = Some (bk, mk)"
    and leni: "length bk = length (b ! k)" "length mk = length (b ! k)"
    and fusedi: "\<forall>j<length (b ! k). bk ! j = 0 \<and> mk ! j = m ! k ! j - b ! k ! j"
    by auto
  have layer: "fuse_layer flag (b', m', v') k =
      Some (b'[k := bk], m'[k := mk], v'[k := process_bn_var (v ! k)])"
    using k len by (simp add: fuse_layer_def at_k lk inner)
  have step: "fold ?step [0..<Suc k] (Some (b, m, v)) =
      Some (b'[k := bk], m'[k := mk], v'[k := process_bn_var (v ! k)])"
    by (simp add: prev layer)
  have new: "\<forall>i<Suc k. length ((b'[k := bk]) ! i) = length (b ! i) \<and>
              length ((m'[k := mk]) ! i) = length (b ! i) \<and>
              (v'[k := process_bn_var (v ! k)]) ! i = process_bn_var (v ! i) \<and>
              (\<forall>j<length (b ! i). (b'[k := bk]) ! i ! j = 0 \<and>
                   (m'[k := mk]) ! i ! j = m ! i ! j - b ! i ! j)"
  proof (intro allI impI)
    fix i assume "i < Suc k"
    then consider "i = k" | "i < k" by linarith
    then show "length ((b'[k := bk]) ! i) = length (b ! i) \<and>
              length ((m'[k := mk]) ! i) = length (b ! i) \<and>
              (v'[k := process_bn_var (v ! k)]) ! i = process_bn_var (v ! i) \<and>
              (\<forall>j<length (b ! i). (b'[k := bk]) ! i ! j = 0 \<and>
                   (m'[k := mk]) ! i ! j = m ! i ! j - b ! i ! j)"
    proof cases
      case 1
      with k len leni fusedi show ?thesis by simp
    next
      case 2
      with fused show ?thesis by simp
    qed
  qed
  have old: "\<forall>i\<ge>Suc k. (b'[k := bk]) ! i = b ! i \<and> (m'[k := mk]) ! i = m ! i \<and>
       (v'[k := process_bn_var (v ! k)]) ! i = v ! i"
    using rest by simp
  from step len new old show ?case
    by (intro exI [of _ "b'[k := bk]"] exI [of _ "m'[k := mk]"]
        exI [of _ "v'[k := process_bn_var (v ! k)]"]) simp
qed

lemma fuse_tower_result:
  assumes cons: "tower_consistent b m v"
  shows "\<exists>b' m' v'. fuse_tower flag b m v = Some (b', m', v') \<and>
       length b' = length b \<and> length m' = length b \<and> length v' = length b \<and>
       (\<forall>i<length b. length (b' ! i) = length (b ! i) \<and> length (m' ! i) = length (b ! i) \<and>
              v' ! i = process_bn_var (v ! i) \<and>
              (\<forall>j<length (b ! i). b' ! i ! j = 0 \<and> m' ! i ! j = m ! i ! j - b ! i ! j))"
  using fuse_tower_prefix [OF cons, of "length b" flag]
  unfolding fuse_tower_def by blast


lemma process_bn_var_nth:
  "j < length ws \<Longrightarrow> process_bn_var ws ! j = 1 / sqrt (ws ! j + 1 / 100000)"
  by (simp add: process_bn_var_def)

text \<open>
  C7. After the loops of \<open>Network::initialize\<close> that fold the biases, on weights whose
  blocks have the lengths \<open>store_layer\<close> asserts: for every convolution with its batch
  normalisation (the input convolution and the residual tower, the value convolution, the
  value pooling convolution, the policy tower; and the same for the dense tower of the value
  head) and every channel index \<open>j\<close>, the stored bias is 0, the stored mean is the mean
  before minus the bias before, and the stored variance cell is \<open>1 / sqrt (w + 1e-5)\<close> of
  the cell \<open>w\<close> before. No index leaves its vector: the loops return a network.
\<close>

theorem bn_fusion:
  assumes wf: "weights_consistent net"
  shows "\<exists>net'. initialize_fold_biases net = Some net' \<and>
     (\<forall>i<length (m_conv_biases (m_fwd_weights net)). \<forall>j<length (m_conv_biases (m_fwd_weights net) ! i).
        m_conv_biases (m_fwd_weights net') ! i ! j = 0 \<and>
        m_batchnorm_means (m_fwd_weights net') ! i ! j =
          m_batchnorm_means (m_fwd_weights net) ! i ! j - m_conv_biases (m_fwd_weights net) ! i ! j \<and>
        m_batchnorm_stddevs (m_fwd_weights net') ! i ! j =
          1 / sqrt (m_batchnorm_stddevs (m_fwd_weights net) ! i ! j + 1 / 100000)) \<and>
     (\<forall>j<length (m_conv_val_b (m_fwd_weights net)).
        m_conv_val_b (m_fwd_weights net') ! j = 0 \<and>
        m_bn_val_w1 (m_fwd_weights net') ! j =
          m_bn_val_w1 (m_fwd_weights net) ! j - m_conv_val_b (m_fwd_weights net) ! j \<and>
        m_bn_val_w2 (m_fwd_weights net') ! j =
          1 / sqrt (m_bn_val_w2 (m_fwd_weights net) ! j + 1 / 100000)) \<and>
     (\<forall>j<length (m_conv_val_pool_b (m_fwd_weights net)).
        m_conv_val_pool_b (m_fwd_weights net') ! j = 0 \<and>
        m_bn_val_pool_w1 (m_fwd_weights net') ! j =
          m_bn_val_pool_w1 (m_fwd_weights net) ! j - m_conv_val_pool_b (m_fwd_weights net) ! j \<and>
        m_bn_val_pool_w2 (m_fwd_weights net') ! j =
          1 / sqrt (m_bn_val_pool_w2 (m_fwd_weights net) ! j + 1 / 100000)) \<and>
     (\<forall>i<length (m_conv_pol_b (m_fwd_weights net)). \<forall>j<length (m_conv_pol_b (m_fwd_weights net) ! i).
        m_conv_pol_b (m_fwd_weights net') ! i ! j = 0 \<and>
        m_bn_pol_w1 (m_fwd_weights net') ! i ! j =
          m_bn_pol_w1 (m_fwd_weights net) ! i ! j - m_conv_pol_b (m_fwd_weights net) ! i ! j \<and>
        m_bn_pol_w2 (m_fwd_weights net') ! i ! j =
          1 / sqrt (m_bn_pol_w2 (m_fwd_weights net) ! i ! j + 1 / 100000)) \<and>
     (\<forall>i<length (m_vh_dense_biases net). \<forall>j<length (m_vh_dense_biases net ! i).
        m_vh_dense_biases net' ! i ! j = 0 \<and>
        m_vh_dense_bn_means net' ! i ! j = m_vh_dense_bn_means net ! i ! j - m_vh_dense_biases net ! i ! j \<and>
        m_vh_dense_bn_vars net' ! i ! j = 1 / sqrt (m_vh_dense_bn_vars net ! i ! j + 1 / 100000))"
proof -
  define w where "w = m_fwd_weights net"
  from wf have conv: "tower_consistent (m_conv_biases w) (m_batchnorm_means w) (m_batchnorm_stddevs w)"
    and val: "length (m_bn_val_w1 w) = length (m_conv_val_b w)"
             "length (m_bn_val_w2 w) = length (m_conv_val_b w)"
    and pool: "length (m_bn_val_pool_w1 w) = length (m_conv_val_pool_b w)"
              "length (m_bn_val_pool_w2 w) = length (m_conv_val_pool_b w)"
    and pol: "tower_consistent (m_conv_pol_b w) (m_bn_pol_w1 w) (m_bn_pol_w2 w)"
    and vh: "tower_consistent (m_vh_dense_biases net) (m_vh_dense_bn_means net) (m_vh_dense_bn_vars net)"
    by (simp_all add: weights_consistent_def w_def Let_def)
  from fuse_tower_result [OF conv, of True]
  obtain cb cm cv where
    1: "fuse_tower True (m_conv_biases w) (m_batchnorm_means w) (m_batchnorm_stddevs w) = Some (cb, cm, cv)"
    and conv': "\<forall>i<length (m_conv_biases w). length (cb ! i) = length (m_conv_biases w ! i) \<and>
         length (cm ! i) = length (m_conv_biases w ! i) \<and>
         cv ! i = process_bn_var (m_batchnorm_stddevs w ! i) \<and>
         (\<forall>j<length (m_conv_biases w ! i). cb ! i ! j = 0 \<and>
              cm ! i ! j = m_batchnorm_means w ! i ! j - m_conv_biases w ! i ! j)"
    by blast
  from biases_into_means_result [of "length (m_bn_val_w1 w)" "m_conv_val_b w" "m_bn_val_w1 w"] val
  obtain vb vm where
    2: "biases_into_means (length (m_bn_val_w1 w)) (m_conv_val_b w) (m_bn_val_w1 w) = Some (vb, vm)"
    and val': "\<forall>j<length (m_conv_val_b w). vb ! j = 0 \<and> vm ! j = m_bn_val_w1 w ! j - m_conv_val_b w ! j"
    by auto
  from biases_into_means_result [of "length (m_bn_val_pool_w1 w)" "m_conv_val_pool_b w" "m_bn_val_pool_w1 w"] pool
  obtain pb pm where
    3: "biases_into_means (length (m_bn_val_pool_w1 w)) (m_conv_val_pool_b w) (m_bn_val_pool_w1 w) = Some (pb, pm)"
    and pool': "\<forall>j<length (m_conv_val_pool_b w). pb ! j = 0 \<and>
         pm ! j = m_bn_val_pool_w1 w ! j - m_conv_val_pool_b w ! j"
    by auto
  from fuse_tower_result [OF pol, of False]
  obtain qb qm qv where
    4: "fuse_tower False (m_conv_pol_b w) (m_bn_pol_w1 w) (m_bn_pol_w2 w) = Some (qb, qm, qv)"
    and pol': "\<forall>i<length (m_conv_pol_b w). length (qb ! i) = length (m_conv_pol_b w ! i) \<and>
         length (qm ! i) = length (m_conv_pol_b w ! i) \<and>
         qv ! i = process_bn_var (m_bn_pol_w2 w ! i) \<and>
         (\<forall>j<length (m_conv_pol_b w ! i). qb ! i ! j = 0 \<and>
              qm ! i ! j = m_bn_pol_w1 w ! i ! j - m_conv_pol_b w ! i ! j)"
    by blast
  from fuse_tower_result [OF vh, of False]
  obtain db dm dv where
    5: "fuse_tower False (m_vh_dense_biases net) (m_vh_dense_bn_means net) (m_vh_dense_bn_vars net)
          = Some (db, dm, dv)"
    and vh': "\<forall>i<length (m_vh_dense_biases net). length (db ! i) = length (m_vh_dense_biases net ! i) \<and>
         length (dm ! i) = length (m_vh_dense_biases net ! i) \<and>
         dv ! i = process_bn_var (m_vh_dense_bn_vars net ! i) \<and>
         (\<forall>j<length (m_vh_dense_biases net ! i). db ! i ! j = 0 \<and>
              dm ! i ! j = m_vh_dense_bn_means net ! i ! j - m_vh_dense_biases net ! i ! j)"
    by blast
  let ?net' = "net\<lparr>m_fwd_weights :=
                       w\<lparr>m_conv_biases := cb, m_batchnorm_means := cm,
                         m_batchnorm_stddevs := cv,
                         m_conv_val_b := vb, m_bn_val_w1 := vm,
                         m_bn_val_w2 := process_bn_var (m_bn_val_w2 w),
                         m_conv_val_pool_b := pb, m_bn_val_pool_w1 := pm,
                         m_bn_val_pool_w2 := process_bn_var (m_bn_val_pool_w2 w),
                         m_conv_pol_b := qb, m_bn_pol_w1 := qm,
                         m_bn_pol_w2 := qv\<rparr>,
                     m_vh_dense_biases := db,
                     m_vh_dense_bn_means := dm,
                     m_vh_dense_bn_vars := dv\<rparr>"
  have res: "initialize_fold_biases net = Some ?net'"
    unfolding initialize_fold_biases_def w_def [symmetric] Let_def 1 2 3 4 5 by simp
  have A: "\<forall>i<length (m_conv_biases w). \<forall>j<length (m_conv_biases w ! i).
        cb ! i ! j = 0 \<and> cm ! i ! j = m_batchnorm_means w ! i ! j - m_conv_biases w ! i ! j \<and>
        cv ! i ! j = 1 / sqrt (m_batchnorm_stddevs w ! i ! j + 1 / 100000)"
    using conv' tower_consistent_nth [OF conv] by (simp add: process_bn_var_nth)
  have B: "\<forall>j<length (m_conv_val_b w). vb ! j = 0 \<and>
        vm ! j = m_bn_val_w1 w ! j - m_conv_val_b w ! j \<and>
        process_bn_var (m_bn_val_w2 w) ! j = 1 / sqrt (m_bn_val_w2 w ! j + 1 / 100000)"
    using val' val by (simp add: process_bn_var_nth)
  have C: "\<forall>j<length (m_conv_val_pool_b w). pb ! j = 0 \<and>
        pm ! j = m_bn_val_pool_w1 w ! j - m_conv_val_pool_b w ! j \<and>
        process_bn_var (m_bn_val_pool_w2 w) ! j = 1 / sqrt (m_bn_val_pool_w2 w ! j + 1 / 100000)"
    using pool' pool by (simp add: process_bn_var_nth)
  have D: "\<forall>i<length (m_conv_pol_b w). \<forall>j<length (m_conv_pol_b w ! i).
        qb ! i ! j = 0 \<and> qm ! i ! j = m_bn_pol_w1 w ! i ! j - m_conv_pol_b w ! i ! j \<and>
        qv ! i ! j = 1 / sqrt (m_bn_pol_w2 w ! i ! j + 1 / 100000)"
    using pol' tower_consistent_nth [OF pol] by (simp add: process_bn_var_nth)
  have E: "\<forall>i<length (m_vh_dense_biases net). \<forall>j<length (m_vh_dense_biases net ! i).
        db ! i ! j = 0 \<and> dm ! i ! j = m_vh_dense_bn_means net ! i ! j - m_vh_dense_biases net ! i ! j \<and>
        dv ! i ! j = 1 / sqrt (m_vh_dense_bn_vars net ! i ! j + 1 / 100000)"
    using vh' tower_consistent_nth [OF vh] by (simp add: process_bn_var_nth)
  show ?thesis
    unfolding w_def [symmetric]
    by (rule exI [of _ ?net']) (simp add: res A B C D E)
qed

theorem bn_fusion_witness:
  "weights_consistent small_network \<and>
   (\<exists>net'. initialize_fold_biases small_network = Some net' \<and>
      m_conv_biases (m_fwd_weights net') ! 0 ! 1 = 0 \<and>
      m_batchnorm_means (m_fwd_weights net') ! 0 ! 1 = 5 \<and>
      m_batchnorm_stddevs (m_fwd_weights net') ! 0 ! 1 = 1 / 2 \<and>
      m_conv_val_b (m_fwd_weights net') ! 0 = 0 \<and>
      m_bn_val_w1 (m_fwd_weights net') ! 0 = 1 \<and>
      m_bn_val_w2 (m_fwd_weights net') ! 0 = 1 / 3)"
proof -
  have wf: "weights_consistent small_network"
    by (simp add: weights_consistent_def tower_consistent_def small_network_def
        fresh_network_def network_with_cache_def no_weights_def)
  have w: "m_conv_biases (m_fwd_weights small_network) = [[1, 2]]"
    "m_batchnorm_means (m_fwd_weights small_network) = [[5, 7]]"
    "m_batchnorm_stddevs (m_fwd_weights small_network) = [[99999 / 100000, 399999 / 100000]]"
    "m_conv_val_b (m_fwd_weights small_network) = [3]"
    "m_bn_val_w1 (m_fwd_weights small_network) = [4]"
    "m_bn_val_w2 (m_fwd_weights small_network) = [899999 / 100000]"
    by (simp_all add: small_network_def fresh_network_def network_with_cache_def no_weights_def)
  have nine: "sqrt 9 = 3"
    using real_sqrt_abs [of 3] by simp
  from bn_fusion [OF wf] obtain net' where
    res: "initialize_fold_biases small_network = Some net'"
    and conv: "\<forall>i<length [[1::real, 2]]. \<forall>j<length ([[1::real, 2]] ! i).
        m_conv_biases (m_fwd_weights net') ! i ! j = 0 \<and>
        m_batchnorm_means (m_fwd_weights net') ! i ! j = [[5, 7]] ! i ! j - [[1, 2]] ! i ! j \<and>
        m_batchnorm_stddevs (m_fwd_weights net') ! i ! j =
          1 / sqrt ([[99999 / 100000, 399999 / 100000]] ! i ! j + 1 / 100000)"
    and val: "\<forall>j<length [3::real].
        m_conv_val_b (m_fwd_weights net') ! j = 0 \<and>
        m_bn_val_w1 (m_fwd_weights net') ! j = [4] ! j - [3] ! j \<and>
        m_bn_val_w2 (m_fwd_weights net') ! j = 1 / sqrt ([899999 / 100000] ! j + 1 / 100000)"
    unfolding w by blast
  from conv have "m_conv_biases (m_fwd_weights net') ! 0 ! 1 = 0 \<and>
      m_batchnorm_means (m_fwd_weights net') ! 0 ! 1 = 5 \<and>
      m_batchnorm_stddevs (m_fwd_weights net') ! 0 ! 1 = 1 / 2"
    by simp
  moreover from val have "m_conv_val_b (m_fwd_weights net') ! 0 = 0 \<and>
      m_bn_val_w1 (m_fwd_weights net') ! 0 = 1 \<and>
      m_bn_val_w2 (m_fwd_weights net') ! 0 = 1 / 3"
    by (simp add: nine)
  ultimately show ?thesis
    using wf res by blast
qed

section \<open>get_output\<close>

lemma lookups_append: "lookups (xs @ ys) = lookups xs @ lookups ys"
  by (induction xs rule: lookups.induct) simp_all



lemma lookups_map_Forward: "lookups (map Forward xs) = []"
  by (induction xs) simp_all



lemma lookups_map_CacheLookup: "lookups (map CacheLookup hs) = hs"
  by (induction hs) simp_all

lemma filter_nonzero_upt: "filter (\<lambda>x. x \<noteq> 0) [0..<n] = [1..<n]"
proof (cases n)
  case 0
  then show ?thesis by simp
next
  case (Suc m)
  have "filter (\<lambda>x. x \<noteq> 0) [Suc 0..<Suc m] = [Suc 0..<Suc m]"
  proof (rule filter_True, rule ballI)
    fix x assume "x \<in> set [Suc 0..<Suc m]"
    then have "Suc 0 \<le> x" by (simp only: set_upt atLeastLessThan_iff)
    then show "x \<noteq> 0" by linarith
  qed
  then show ?thesis
    unfolding Suc by (simp add: upt_conv_Cons del: upt_Suc)
qed

text \<open>The symmetry loop when every hash it tries misses.\<close>

lemma probe_symmetries_miss:
  "(\<And>s. s \<in> set xs \<Longrightarrow> s \<noteq> IDENTITY_SYMMETRY \<Longrightarrow>
        cache_lookup e (m_nncache (w_net w)) (get_symmetry_hash state s) = None) \<Longrightarrow>
   probe_symmetries e state xs result w =
     ((False, result),
      w\<lparr>w_trace := w_trace w @ map (\<lambda>s. CacheLookup (get_symmetry_hash state s))
                                (filter (\<lambda>s. s \<noteq> IDENTITY_SYMMETRY) xs)\<rparr>)"
proof (induction xs arbitrary: w)
  case Nil
  then show ?case by simp
next
  case (Cons x xs)
  show ?case
  proof (cases "x = IDENTITY_SYMMETRY")
    case True
    with Cons show ?thesis by simp
  next
    case False
    let ?w' = "w\<lparr>w_trace := w_trace w @ [CacheLookup (get_symmetry_hash state x)]\<rparr>"
    from Cons.prems [of x] False
    have miss: "cache_lookup e (m_nncache (w_net w)) (get_symmetry_hash state x) = None"
      by simp
    have "probe_symmetries e state xs result ?w' =
        ((False, result),
         ?w'\<lparr>w_trace := w_trace ?w' @ map (\<lambda>s. CacheLookup (get_symmetry_hash state s))
                                (filter (\<lambda>s. s \<noteq> IDENTITY_SYMMETRY) xs)\<rparr>)"
      by (rule Cons.IH) (simp add: Cons.prems)
    with False miss show ?thesis
      by (simp add: nncache_lookup_def)
  qed
qed

text \<open>The symmetry loop when the first hash to hit is that of \<open>s\<close>.\<close>

lemma probe_symmetries_hit:
  "(\<And>s'. s' \<in> set pre \<Longrightarrow> s' \<noteq> IDENTITY_SYMMETRY \<Longrightarrow>
        cache_lookup e (m_nncache (w_net w)) (get_symmetry_hash state s') = None) \<Longrightarrow>
   s \<noteq> IDENTITY_SYMMETRY \<Longrightarrow>
   cache_lookup e (m_nncache (w_net w)) (get_symmetry_hash state s) = Some cached \<Longrightarrow>
   probe_symmetries e state (pre @ s # post) result w =
     ((True, cached\<lparr>nr_policy := map (\<lambda>idx. nr_policy cached ! symmetry_nn_idx_table e s idx)
                                      [0..<NUM_INTERSECTIONS e]\<rparr>),
      w\<lparr>w_trace := w_trace w @ map (\<lambda>s. CacheLookup (get_symmetry_hash state s))
                                (filter (\<lambda>s. s \<noteq> IDENTITY_SYMMETRY) pre @ [s])\<rparr>)"
proof (induction pre arbitrary: w)
  case Nil
  then show ?case by (simp add: nncache_lookup_def)
next
  case (Cons x xs)
  show ?case
  proof (cases "x = IDENTITY_SYMMETRY")
    case True
    with Cons show ?thesis by simp
  next
    case False
    let ?w' = "w\<lparr>w_trace := w_trace w @ [CacheLookup (get_symmetry_hash state x)]\<rparr>"
    from Cons.prems(1) [of x] False
    have miss: "cache_lookup e (m_nncache (w_net w)) (get_symmetry_hash state x) = None"
      by simp
    have "probe_symmetries e state (xs @ s # post) result ?w' =
        ((True, cached\<lparr>nr_policy := map (\<lambda>idx. nr_policy cached ! symmetry_nn_idx_table e s idx)
                                      [0..<NUM_INTERSECTIONS e]\<rparr>),
         ?w'\<lparr>w_trace := w_trace ?w' @ map (\<lambda>s. CacheLookup (get_symmetry_hash state s))
                                (filter (\<lambda>s. s \<noteq> IDENTITY_SYMMETRY) xs @ [s])\<rparr>)"
      by (rule Cons.IH) (simp_all add: Cons.prems)
    with False miss show ?thesis
      by (simp add: nncache_lookup_def)
  qed
qed


lemma upt_split_at: "s < n \<Longrightarrow> [0..<n] = [0..<s] @ s # [Suc s..<n]"
  by (metis le_add1 less_imp_add_positive upt_add_eq_append upt_conv_Cons plus_nat.add_0)

lemma probe_cache_unfold:
  "probe_cache e state result w =
     (case cache_lookup e (m_nncache (w_net w)) (get_hash state) of
        Some cached \<Rightarrow>
          ((True, if nr_is_sai cached then get_sai_winrate cached state else cached),
           w\<lparr>w_trace := w_trace w @ [CacheLookup (get_hash state)]\<rparr>)
      | None \<Rightarrow>
          if in_early_opening e state
          then (case probe_symmetries e state [0..<NUM_SYMMETRIES] result
                       (w\<lparr>w_trace := w_trace w @ [CacheLookup (get_hash state)]\<rparr>) of
                  ((cache_success, result'), w2) \<Rightarrow>
                    if cache_success \<and> nr_is_sai result'
                    then ((cache_success, get_sai_winrate result' state), w2)
                    else ((cache_success, result'), w2))
          else ((False, result), w\<lparr>w_trace := w_trace w @ [CacheLookup (get_hash state)]\<rparr>))"
  unfolding probe_cache_def nncache_lookup_def in_early_opening_def [symmetric] Let_def
  by (simp split: option.split prod.split)

lemma probe_cache_own_hit:
  assumes "cache_lookup e (m_nncache (w_net w)) (get_hash state) = Some cached"
  shows "probe_cache e state result w =
     ((True, if nr_is_sai cached then get_sai_winrate cached state else cached),
      w\<lparr>w_trace := w_trace w @ [CacheLookup (get_hash state)]\<rparr>)"
  using assms by (simp add: probe_cache_unfold)

lemma probe_cache_miss_late:
  assumes "cache_lookup e (m_nncache (w_net w)) (get_hash state) = None"
    and "\<not> in_early_opening e state"
  shows "probe_cache e state result w =
     ((False, result), w\<lparr>w_trace := w_trace w @ [CacheLookup (get_hash state)]\<rparr>)"
  using assms by (simp add: probe_cache_unfold)

lemma probe_cache_miss_all:
  assumes own: "cache_lookup e (m_nncache (w_net w)) (get_hash state) = None"
    and early: "in_early_opening e state"
    and miss: "\<And>s. 1 \<le> s \<Longrightarrow> s < 8 \<Longrightarrow>
        cache_lookup e (m_nncache (w_net w)) (get_symmetry_hash state s) = None"
  shows "probe_cache e state result w =
     ((False, result),
      w\<lparr>w_trace := w_trace w @ CacheLookup (get_hash state)
              # map (\<lambda>s. CacheLookup (get_symmetry_hash state s)) [1..<8]\<rparr>)"
proof -
  let ?w1 = "w\<lparr>w_trace := w_trace w @ [CacheLookup (get_hash state)]\<rparr>"
  have "probe_symmetries e state [0..<NUM_SYMMETRIES] result ?w1 =
     ((False, result),
      ?w1\<lparr>w_trace := w_trace ?w1 @ map (\<lambda>s. CacheLookup (get_symmetry_hash state s))
                                (filter (\<lambda>s. s \<noteq> IDENTITY_SYMMETRY) [0..<NUM_SYMMETRIES])\<rparr>)"
  proof (rule probe_symmetries_miss)
    fix s assume "s \<in> set [0..<NUM_SYMMETRIES]" "s \<noteq> IDENTITY_SYMMETRY"
    then have "1 \<le> s" "s < 8"
      by (simp_all add: NUM_SYMMETRIES_def IDENTITY_SYMMETRY_def)
    then show "cache_lookup e (m_nncache (w_net ?w1)) (get_symmetry_hash state s) = None"
      using miss by simp
  qed
  then have "probe_symmetries e state [0..<NUM_SYMMETRIES] result ?w1 =
     ((False, result),
      w\<lparr>w_trace := w_trace w @ CacheLookup (get_hash state)
              # map (\<lambda>s. CacheLookup (get_symmetry_hash state s)) [1..<8]\<rparr>)"
    unfolding IDENTITY_SYMMETRY_def NUM_SYMMETRIES_def filter_nonzero_upt by simp
  with own early show ?thesis
    by (simp add: probe_cache_unfold)
qed

lemma probe_cache_sym_hit:
  assumes own: "cache_lookup e (m_nncache (w_net w)) (get_hash state) = None"
    and early: "in_early_opening e state"
    and s: "1 \<le> s" "s < 8"
    and miss: "\<And>s'. 1 \<le> s' \<Longrightarrow> s' < s \<Longrightarrow>
        cache_lookup e (m_nncache (w_net w)) (get_symmetry_hash state s') = None"
    and hit: "cache_lookup e (m_nncache (w_net w)) (get_symmetry_hash state s) = Some cached"
  shows "probe_cache e state result w =
     ((True, rotated e state s cached),
      w\<lparr>w_trace := w_trace w @ CacheLookup (get_hash state)
              # map (\<lambda>s. CacheLookup (get_symmetry_hash state s)) [1..<Suc s]\<rparr>)"
proof -
  let ?w1 = "w\<lparr>w_trace := w_trace w @ [CacheLookup (get_hash state)]\<rparr>"
  let ?r = "cached\<lparr>nr_policy := map (\<lambda>idx. nr_policy cached ! symmetry_nn_idx_table e s idx)
                                      [0..<NUM_INTERSECTIONS e]\<rparr>"
  have split: "[0..<NUM_SYMMETRIES] = [0..<s] @ s # [Suc s..<8]"
    unfolding NUM_SYMMETRIES_def using s(2) by (rule upt_split_at)
  have "probe_symmetries e state ([0..<s] @ s # [Suc s..<8]) result ?w1 =
     ((True, ?r),
      ?w1\<lparr>w_trace := w_trace ?w1 @ map (\<lambda>s. CacheLookup (get_symmetry_hash state s))
                                (filter (\<lambda>s. s \<noteq> IDENTITY_SYMMETRY) [0..<s] @ [s])\<rparr>)"
  proof (rule probe_symmetries_hit)
    fix s' assume "s' \<in> set [0..<s]" "s' \<noteq> IDENTITY_SYMMETRY"
    then have "1 \<le> s'" "s' < s"
      by (simp_all add: IDENTITY_SYMMETRY_def)
    then show "cache_lookup e (m_nncache (w_net ?w1)) (get_symmetry_hash state s') = None"
      using miss by simp
  next
    show "s \<noteq> IDENTITY_SYMMETRY"
      using s(1) by (simp add: IDENTITY_SYMMETRY_def)
  next
    show "cache_lookup e (m_nncache (w_net ?w1)) (get_symmetry_hash state s) = Some cached"
      using hit by simp
  qed
  moreover have "filter (\<lambda>s. s \<noteq> IDENTITY_SYMMETRY) [0..<s] @ [s] = [1..<Suc s]"
    unfolding IDENTITY_SYMMETRY_def filter_nonzero_upt using s(1) by simp
  ultimately have "probe_symmetries e state [0..<NUM_SYMMETRIES] result ?w1 =
     ((True, ?r),
      w\<lparr>w_trace := w_trace w @ CacheLookup (get_hash state)
              # map (\<lambda>s. CacheLookup (get_symmetry_hash state s)) [1..<Suc s]\<rparr>)"
    unfolding split by simp
  with own early show ?thesis
    by (simp add: probe_cache_unfold rotated_def Let_def)
qed

lemma forward_def2:
  "forward e state s w = (get_output_internal e state s, w\<lparr>w_trace := w_trace w @ [Forward s]\<rparr>)"
  by (simp add: forward_def)


text \<open>The loop stops at the first forward pass that is halted.\<close>

lemma average_loop_trace:
  "\<exists>syms. w_trace (snd (average_loop e state xs result w)) = w_trace w @ map Forward syms \<and>
     w_net (snd (average_loop e state xs result w)) = w_net w"
proof (induction xs arbitrary: result w)
  case Nil
  show ?case by (rule exI [of _ "[]"]) simp
next
  case (Cons x xs)
  let ?w' = "w\<lparr>w_trace := w_trace w @ [Forward x]\<rparr>"
  show ?case
  proof (cases "get_output_internal e state x")
    case (Inl ex)
    then show ?thesis
      by (intro exI [of _ "[x]"]) (simp add: forward_def)
  next
    case (Inr tmpresult)
    from Cons.IH [of "accumulate e result tmpresult" ?w']
    obtain syms where
      "w_trace (snd (average_loop e state xs (accumulate e result tmpresult) ?w'))
         = w_trace ?w' @ map Forward syms"
      "w_net (snd (average_loop e state xs (accumulate e result tmpresult) ?w')) = w_net ?w'"
      by blast
    with Inr show ?thesis
      by (intro exI [of _ "x # syms"]) (simp add: forward_def)
  qed
qed

text \<open>
  An evaluation looks nothing up and inserts nothing: it leaves the network as it is and
  adds forward passes to the trace.
\<close>

lemma evaluate_trace:
  "\<exists>syms. w_trace (snd (evaluate e state ensemble symmetry result w)) = w_trace w @ map Forward syms \<and>
     w_net (snd (evaluate e state ensemble symmetry result w)) = w_net w"
proof (cases ensemble)
  case DIRECT
  show ?thesis
  proof (cases "0 \<le> symmetry \<and> symmetry < int NUM_SYMMETRIES")
    case True
    then have "evaluate e state ensemble symmetry result w = forward e state (nat symmetry) w"
      unfolding evaluate_def DIRECT by simp
    then show ?thesis
      by (intro exI [of _ "[nat symmetry]"]) (simp add: forward_def)
  next
    case False
    then have "evaluate e state ensemble symmetry result w = (Inl AssertionFailed, w)"
      unfolding evaluate_def DIRECT Ensemble.case by (rule if_not_P)
    then show ?thesis
      by (intro exI [of _ "[]"]) simp
  qed
next
  case RANDOM_SYMMETRY
  show ?thesis
  proof (cases "symmetry = - 1")
    case True
    with RANDOM_SYMMETRY show ?thesis
      by (intro exI [of _ "[fst (randfix8 e (w_rng w))]"])
        (simp add: evaluate_def forward_def case_prod_beta)
  next
    case False
    with RANDOM_SYMMETRY show ?thesis
      by (intro exI [of _ "[]"]) (simp add: evaluate_def)
  qed
next
  case AVERAGE
  show ?thesis
  proof (cases "symmetry = - 1")
    case True
    with AVERAGE average_loop_trace [of e state "[0..<NUM_SYMMETRIES]" result w]
    show ?thesis by (simp add: evaluate_def)
  next
    case False
    with AVERAGE show ?thesis
      by (intro exI [of _ "[]"]) (simp add: evaluate_def)
  qed
qed


lemma fold_accumulate_is_sai:
  "xs \<noteq> [] \<Longrightarrow> nr_is_sai (fold (\<lambda>s r. accumulate e r (tmp s)) xs result) = nr_is_sai (tmp (last xs))"
  by (induction xs arbitrary: result) (auto simp add: accumulate_def)





lemma get_output_probe:
  assumes size: "get_boardsize state = BOARD_SIZE e"
    and yes: "read_cache \<and> ensemble \<noteq> AVERAGE"
    and probe: "probe_cache e state (default_Netresult e) w = ((hit, result1), w1)"
  shows "get_output e state ensemble symmetry read_cache write_cache w =
     (if hit then (Inr result1, w1)
      else after_evaluate e state write_cache (evaluate e state ensemble symmetry result1 w1))"
  unfolding get_output_def Let_def if_P [OF yes] probe using size by simp

lemma lookups_after_evaluate:
  "lookups (w_trace (snd (after_evaluate e state write_cache
      (evaluate e state ensemble symmetry result w)))) = lookups (w_trace w)"
proof -
  from evaluate_trace [of e state ensemble symmetry result w]
  obtain syms where tr: "w_trace (snd (evaluate e state ensemble symmetry result w))
      = w_trace w @ map Forward syms"
    by blast
  obtain r w2 where ev: "evaluate e state ensemble symmetry result w = (r, w2)"
    by (cases "evaluate e state ensemble symmetry result w")
  with tr have tr2: "w_trace w2 = w_trace w @ map Forward syms" by simp
  show ?thesis
    unfolding ev after_evaluate_def
    by (cases r)
      (simp_all add: tr2 Let_def nncache_insert_def lookups_append lookups_map_Forward)
qed

section \<open>get_output on a board of another size\<close>

text \<open>
  C10. For every state whose board size differs from \<open>BOARD_SIZE\<close>, \<open>get_output\<close> returns
  a default-constructed \<open>Netresult\<close> and leaves the world as it is: the cache is the same
  and the trace has no new lookup, forward pass or insertion, whatever the ensemble, the
  symmetry and the two cache flags.
\<close>

theorem get_output_board_size_mismatch:
  "get_boardsize state \<noteq> BOARD_SIZE e \<Longrightarrow>
     get_output e state ensemble symmetry read_cache write_cache w = (Inr (default_Netresult e), w)"
  by (simp add: get_output_def)

theorem get_output_board_size_mismatch_witness:
  "get_boardsize (example_state\<lparr>get_boardsize := 9\<rparr>) \<noteq> BOARD_SIZE example_env \<and>
   get_output example_env (example_state\<lparr>get_boardsize := 9\<rparr>) AVERAGE (- 1) True True
       (example_world [(1, example_cached)])
     = (Inr example_default, example_world [(1, example_cached)])"
proof -
  have ne: "get_boardsize (example_state\<lparr>get_boardsize := 9\<rparr>) \<noteq> BOARD_SIZE example_env"
    by (simp add: example_env_def)
  from get_output_board_size_mismatch [OF ne]
  have "get_output example_env (example_state\<lparr>get_boardsize := 9\<rparr>) AVERAGE (- 1) True True
       (example_world [(1, example_cached)])
     = (Inr (default_Netresult example_env), example_world [(1, example_cached)])" .
  with ne show ?thesis
    by (simp add: example_env_def)
qed

section \<open>The AVERAGE ensemble\<close>


section \<open>The cache probe\<close>

lemma rotated_fields:
  "nr_policy (rotated e state s cached) =
     map (\<lambda>idx. nr_policy cached ! symmetry_nn_idx_table e s idx) [0..<NUM_INTERSECTIONS e]"
  "nr_policy_pass (rotated e state s cached) = nr_policy_pass cached"
  "nr_alpha (rotated e state s cached) = nr_alpha cached"
  "nr_beta (rotated e state s cached) = nr_beta cached"
  "nr_beta2 (rotated e state s cached) = nr_beta2 cached"
  "nr_is_sai (rotated e state s cached) = nr_is_sai cached"
  "nr_value (rotated e state s cached) =
     (if nr_is_sai cached
      then fst (sigmoid (nr_alpha cached) (nr_beta cached)
                  (if get_to_move state = WHITE then get_komi_adj state else - get_komi_adj state)
                  (nr_beta2 cached))
      else nr_value cached)"
  by (simp_all add: rotated_def get_sai_winrate_def Let_def)

lemma get_output_late_miss:
  assumes size: "get_boardsize state = BOARD_SIZE e"
    and ens: "ensemble \<noteq> AVERAGE"
    and own: "cache_lookup e (m_nncache (w_net w)) (get_hash state) = None"
    and late: "\<not> in_early_opening e state"
  shows "get_output e state ensemble symmetry True write_cache w =
     after_evaluate e state write_cache
       (evaluate e state ensemble symmetry (default_Netresult e)
          (w\<lparr>w_trace := w_trace w @ [CacheLookup (get_hash state)]\<rparr>))"
proof -
  from ens have yes: "True \<and> ensemble \<noteq> AVERAGE" by simp
  from get_output_probe [OF size yes probe_cache_miss_late [OF own late]]
  show ?thesis by simp
qed

lemma get_output_early_miss:
  assumes size: "get_boardsize state = BOARD_SIZE e"
    and ens: "ensemble \<noteq> AVERAGE"
    and own: "cache_lookup e (m_nncache (w_net w)) (get_hash state) = None"
    and early: "in_early_opening e state"
    and miss: "\<And>s. 1 \<le> s \<Longrightarrow> s < 8 \<Longrightarrow>
        cache_lookup e (m_nncache (w_net w)) (get_symmetry_hash state s) = None"
  shows "get_output e state ensemble symmetry True write_cache w =
     after_evaluate e state write_cache
       (evaluate e state ensemble symmetry (default_Netresult e)
          (w\<lparr>w_trace := w_trace w @ CacheLookup (get_hash state)
              # map (\<lambda>s. CacheLookup (get_symmetry_hash state s)) [1..<8]\<rparr>))"
proof -
  from ens have yes: "True \<and> ensemble \<noteq> AVERAGE" by simp
  from get_output_probe [OF size yes probe_cache_miss_all [OF own early miss]]
  show ?thesis by simp
qed

lemma get_output_symmetry_hit:
  assumes size: "get_boardsize state = BOARD_SIZE e"
    and ens: "ensemble \<noteq> AVERAGE"
    and own: "cache_lookup e (m_nncache (w_net w)) (get_hash state) = None"
    and early: "in_early_opening e state"
    and s: "1 \<le> s" "s < 8"
    and miss: "\<And>s'. 1 \<le> s' \<Longrightarrow> s' < s \<Longrightarrow>
        cache_lookup e (m_nncache (w_net w)) (get_symmetry_hash state s') = None"
    and hit: "cache_lookup e (m_nncache (w_net w)) (get_symmetry_hash state s) = Some cached"
  shows "get_output e state ensemble symmetry True write_cache w =
     (Inr (rotated e state s cached),
      w\<lparr>w_trace := w_trace w @ CacheLookup (get_hash state)
              # map (\<lambda>s. CacheLookup (get_symmetry_hash state s)) [1..<Suc s]\<rparr>)"
proof -
  from ens have yes: "True \<and> ensemble \<noteq> AVERAGE" by simp
  from get_output_probe [OF size yes probe_cache_sym_hit [OF own early s miss hit]]
  show ?thesis by simp
qed

lemma lookups_map_symmetry:
  "lookups (map (\<lambda>s. CacheLookup (f s)) xs) = map f xs"
  by (induction xs) simp_all


text \<open>
  C1, as stated, fails in both directions. In a game past the opening (move 100 where the
  opening window ends at move \<open>60 div 2 = 30\<close>) only the state's own hash is looked up,
  although the cache holds the position under its second symmetric hash, and the result
  comes from the network. In the early opening (move 0) the symmetric hashes are probed.
\<close>

theorem symmetric_probe_counterexample:
  "\<not> get_movenum (example_state\<lparr>get_movenum := 100\<rparr>)
       < opening_moves (example_state\<lparr>get_movenum := 100\<rparr>) (BOARD_SIZE example_env) div 2 \<and>
   lookups (w_trace (snd (get_output example_env (example_state\<lparr>get_movenum := 100\<rparr>) DIRECT 0
      True False (example_world [(12, example_cached)])))) = [1] \<and>
   fst (get_output example_env (example_state\<lparr>get_movenum := 100\<rparr>) DIRECT 0
      True False (example_world [(12, example_cached)])) = Inr (example_result 0) \<and>
   get_movenum example_state < opening_moves example_state (BOARD_SIZE example_env) div 2 \<and>
   lookups (w_trace (snd (get_output example_env example_state DIRECT 0
      True False (example_world [(12, example_cached)])))) = [1, 11, 12]"
proof -
  let ?late = "example_state\<lparr>get_movenum := 100\<rparr>"
  let ?w = "example_world [(12, example_cached)]"
  have past: "\<not> get_movenum ?late < opening_moves ?late (BOARD_SIZE example_env) div 2"
    by (simp add: example_state_def example_env_def)
  then have late: "\<not> in_early_opening example_env ?late"
    by (simp add: in_early_opening_def)
  have window: "get_movenum example_state < opening_moves example_state (BOARD_SIZE example_env) div 2"
    by (simp add: example_state_def example_env_def)
  then have early: "in_early_opening example_env example_state"
    by (simp add: in_early_opening_def example_env_def example_cfg_def)
  have size: "get_boardsize ?late = BOARD_SIZE example_env"
    "get_boardsize example_state = BOARD_SIZE example_env"
    by (simp_all add: example_state_def example_env_def)
  have ens: "DIRECT \<noteq> AVERAGE" by simp
  have own: "cache_lookup example_env (m_nncache (w_net ?w)) (get_hash ?late) = None"
    "cache_lookup example_env (m_nncache (w_net ?w)) (get_hash example_state) = None"
    by (simp_all add: example_env_def example_world_def network_with_cache_def example_state_def)
  have miss: "cache_lookup example_env (m_nncache (w_net ?w)) (get_symmetry_hash example_state s') = None"
    if "1 \<le> s'" "s' < 2" for s'
  proof -
    from that have "s' = 1" by linarith
    then show ?thesis
      by (simp add: example_env_def example_world_def network_with_cache_def example_state_def)
  qed
  have hit: "cache_lookup example_env (m_nncache (w_net ?w)) (get_symmetry_hash example_state 2)
      = Some example_cached"
    by (simp add: example_env_def example_world_def network_with_cache_def example_state_def)
  have two: "(1::nat) \<le> 2" "(2::nat) < 8" by simp_all
  have out_late: "get_output example_env ?late DIRECT 0 True False ?w =
      (Inr (example_result 0), ?w\<lparr>w_trace := [CacheLookup 1, Forward 0]\<rparr>)"
    using get_output_late_miss [OF size(1) ens own(1) late, of 0 False]
    by (simp add: after_evaluate_def evaluate_def forward_def NUM_SYMMETRIES_def
        example_env_def example_world_def network_with_cache_def example_state_def)
  have out_early: "get_output example_env example_state DIRECT 0 True False ?w =
      (Inr (rotated example_env example_state 2 example_cached),
       ?w\<lparr>w_trace := [CacheLookup 1, CacheLookup 11, CacheLookup 12]\<rparr>)"
    using get_output_symmetry_hit [OF size(2) ens own(2) early two miss hit, of 0 False]
    by (simp add: example_world_def example_state_def upt_rec)
  from past window show ?thesis
    unfolding out_late out_early by simp
qed


text \<open>
  C1, amended. For every state of the compiled board size: when \<open>get_output\<close> is called
  with \<open>read_cache\<close> true and an ensemble other than \<open>AVERAGE\<close>, and the lookup under the
  state's own board hash misses, the symmetric hashes are probed exactly when noise is off,
  no random moves are configured and the move number is below half of the opening moves of
  the time control (the game is in its early opening, not past it): then the hashes of the
  symmetries \<open>1, ..., 7\<close> are looked up in this order until the first hit, otherwise only
  the own hash is looked up. On a hit under symmetry \<open>s\<close> nothing is evaluated or inserted
  and the result returned is the cached one with its policy read through the symmetry
  table (the entry at \<open>idx\<close> is the cached entry at \<open>symmetry_nn_idx_table[s][idx]\<close>) and,
  for a SAI result, its value recomputed from the cached \<open>alpha\<close>, \<open>beta\<close>, \<open>beta2\<close> and
  the state's komi.
\<close>

theorem symmetric_cache_probe:
  assumes size: "get_boardsize state = BOARD_SIZE e"
    and ens: "ensemble \<noteq> AVERAGE"
    and own: "cache_lookup e (m_nncache (w_net w)) (get_hash state) = None"
  shows
    "(\<not> in_early_opening e state \<longrightarrow>
        lookups (w_trace (snd (get_output e state ensemble symmetry True write_cache w)))
          = lookups (w_trace w) @ [get_hash state]) \<and>
     (in_early_opening e state \<and>
      (\<forall>s. 1 \<le> s \<and> s < 8 \<longrightarrow>
           cache_lookup e (m_nncache (w_net w)) (get_symmetry_hash state s) = None) \<longrightarrow>
        lookups (w_trace (snd (get_output e state ensemble symmetry True write_cache w)))
          = lookups (w_trace w) @ get_hash state # map (get_symmetry_hash state) [1..<8]) \<and>
     (\<forall>s cached.
        in_early_opening e state \<and> 1 \<le> s \<and> s < 8 \<and>
        (\<forall>s'. 1 \<le> s' \<and> s' < s \<longrightarrow>
           cache_lookup e (m_nncache (w_net w)) (get_symmetry_hash state s') = None) \<and>
        cache_lookup e (m_nncache (w_net w)) (get_symmetry_hash state s) = Some cached \<longrightarrow>
        (\<exists>r. get_output e state ensemble symmetry True write_cache w =
               (Inr r, w\<lparr>w_trace := w_trace w @
                    map CacheLookup (get_hash state # map (get_symmetry_hash state) [1..<Suc s])\<rparr>) \<and>
             length (nr_policy r) = NUM_INTERSECTIONS e \<and>
             (\<forall>idx<NUM_INTERSECTIONS e.
                nr_policy r ! idx = nr_policy cached ! symmetry_nn_idx_table e s idx) \<and>
             nr_policy_pass r = nr_policy_pass cached \<and>
             nr_alpha r = nr_alpha cached \<and> nr_beta r = nr_beta cached \<and>
             nr_beta2 r = nr_beta2 cached \<and> nr_is_sai r = nr_is_sai cached \<and>
             nr_value r =
               (if nr_is_sai cached
                then fst (sigmoid (nr_alpha cached) (nr_beta cached)
                       (if get_to_move state = WHITE then get_komi_adj state
                        else - get_komi_adj state)
                       (nr_beta2 cached))
                else nr_value cached)))"
proof (intro conjI allI impI)
  assume late: "\<not> in_early_opening e state"
  show "lookups (w_trace (snd (get_output e state ensemble symmetry True write_cache w)))
          = lookups (w_trace w) @ [get_hash state]"
    using get_output_late_miss [OF size ens own late, of symmetry write_cache]
    by (simp add: lookups_after_evaluate lookups_append)
next
  assume "in_early_opening e state \<and>
      (\<forall>s. 1 \<le> s \<and> s < 8 \<longrightarrow>
           cache_lookup e (m_nncache (w_net w)) (get_symmetry_hash state s) = None)"
  then have early: "in_early_opening e state"
    and miss: "\<And>s. 1 \<le> s \<Longrightarrow> s < 8 \<Longrightarrow>
        cache_lookup e (m_nncache (w_net w)) (get_symmetry_hash state s) = None"
    by simp_all
  show "lookups (w_trace (snd (get_output e state ensemble symmetry True write_cache w)))
          = lookups (w_trace w) @ get_hash state # map (get_symmetry_hash state) [1..<8]"
    using get_output_early_miss [OF size ens own early miss, of symmetry write_cache]
    by (simp add: lookups_after_evaluate lookups_append lookups_map_symmetry del: upt_Suc)
next
  fix s cached
  assume "in_early_opening e state \<and> 1 \<le> s \<and> s < 8 \<and>
        (\<forall>s'. 1 \<le> s' \<and> s' < s \<longrightarrow>
           cache_lookup e (m_nncache (w_net w)) (get_symmetry_hash state s') = None) \<and>
        cache_lookup e (m_nncache (w_net w)) (get_symmetry_hash state s) = Some cached"
  then have early: "in_early_opening e state" and s: "1 \<le> s" "s < 8"
    and miss: "\<And>s'. 1 \<le> s' \<Longrightarrow> s' < s \<Longrightarrow>
        cache_lookup e (m_nncache (w_net w)) (get_symmetry_hash state s') = None"
    and hit: "cache_lookup e (m_nncache (w_net w)) (get_symmetry_hash state s) = Some cached"
    by simp_all
  have out: "get_output e state ensemble symmetry True write_cache w =
     (Inr (rotated e state s cached),
      w\<lparr>w_trace := w_trace w @
          map CacheLookup (get_hash state # map (get_symmetry_hash state) [1..<Suc s])\<rparr>)"
    using get_output_symmetry_hit [OF size ens own early s miss hit, of symmetry write_cache]
    by (simp add: comp_def del: upt_Suc)
  show "\<exists>r. get_output e state ensemble symmetry True write_cache w =
               (Inr r, w\<lparr>w_trace := w_trace w @
                    map CacheLookup (get_hash state # map (get_symmetry_hash state) [1..<Suc s])\<rparr>) \<and>
             length (nr_policy r) = NUM_INTERSECTIONS e \<and>
             (\<forall>idx<NUM_INTERSECTIONS e.
                nr_policy r ! idx = nr_policy cached ! symmetry_nn_idx_table e s idx) \<and>
             nr_policy_pass r = nr_policy_pass cached \<and>
             nr_alpha r = nr_alpha cached \<and> nr_beta r = nr_beta cached \<and>
             nr_beta2 r = nr_beta2 cached \<and> nr_is_sai r = nr_is_sai cached \<and>
             nr_value r =
               (if nr_is_sai cached
                then fst (sigmoid (nr_alpha cached) (nr_beta cached)
                       (if get_to_move state = WHITE then get_komi_adj state
                        else - get_komi_adj state)
                       (nr_beta2 cached))
                else nr_value cached)"
    by (rule exI [of _ "rotated e state s cached"]) (simp add: out rotated_fields)
qed

theorem symmetric_cache_probe_witness:
  "get_boardsize example_state = BOARD_SIZE example_env \<and> DIRECT \<noteq> AVERAGE \<and>
   cache_lookup example_env (m_nncache (w_net (example_world [(12, example_cached)])))
      (get_hash example_state) = None \<and>
   in_early_opening example_env example_state \<and>
   \<not> in_early_opening example_env (example_state\<lparr>get_movenum := 100\<rparr>) \<and>
   (\<exists>r. get_output example_env example_state DIRECT 0 True False (example_world [(12, example_cached)])
          = (Inr r, (example_world [(12, example_cached)])
                      \<lparr>w_trace := [CacheLookup 1, CacheLookup 11, CacheLookup 12]\<rparr>) \<and>
        nr_policy r ! 0 = 18 \<and> nr_policy_pass r = 1 / 2 \<and> nr_value r = 3 / 4) \<and>
   lookups (w_trace (snd (get_output example_env (example_state\<lparr>get_movenum := 100\<rparr>) DIRECT 0
      True False (example_world [(12, example_cached)])))) = [1]"
proof -
  let ?late = "example_state\<lparr>get_movenum := 100\<rparr>"
  let ?w = "example_world [(12, example_cached)]"
  have late: "\<not> in_early_opening example_env ?late"
    by (simp add: in_early_opening_def example_state_def example_env_def)
  have early: "in_early_opening example_env example_state"
    by (simp add: in_early_opening_def example_state_def example_env_def example_cfg_def)
  have size: "get_boardsize ?late = BOARD_SIZE example_env"
    "get_boardsize example_state = BOARD_SIZE example_env"
    by (simp_all add: example_state_def example_env_def)
  have ens: "DIRECT \<noteq> AVERAGE" by simp
  have own: "cache_lookup example_env (m_nncache (w_net ?w)) (get_hash ?late) = None"
    "cache_lookup example_env (m_nncache (w_net ?w)) (get_hash example_state) = None"
    by (simp_all add: example_env_def example_world_def network_with_cache_def example_state_def)
  have miss: "\<forall>s'. 1 \<le> s' \<and> s' < 2 \<longrightarrow>
      cache_lookup example_env (m_nncache (w_net ?w)) (get_symmetry_hash example_state s') = None"
  proof (intro allI impI)
    fix s' :: nat assume "1 \<le> s' \<and> s' < 2"
    then have "s' = 1" by linarith
    then show "cache_lookup example_env (m_nncache (w_net ?w)) (get_symmetry_hash example_state s') = None"
      by (simp add: example_env_def example_world_def network_with_cache_def example_state_def)
  qed
  have hit: "cache_lookup example_env (m_nncache (w_net ?w)) (get_symmetry_hash example_state 2)
      = Some example_cached"
    by (simp add: example_env_def example_world_def network_with_cache_def example_state_def)
  have idx: "symmetry_nn_idx_table example_env 2 0 = 18" "0 < NUM_INTERSECTIONS example_env"
    by (simp_all add: symmetry_nn_idx_table_def get_symmetry_def NUM_INTERSECTIONS_def
        example_env_def)
  have cached: "nr_policy example_cached ! 18 = 18" "nr_policy_pass example_cached = 1 / 2"
    "nr_value example_cached = 3 / 4" "\<not> nr_is_sai example_cached"
    by (simp_all add: example_cached_def)
  have tr: "w_trace ?w = []" "get_hash example_state = 1"
    "map (get_symmetry_hash example_state) [1..<Suc 2] = [11, 12]"
    by (simp_all add: example_world_def example_state_def upt_rec)
  from symmetric_cache_probe [OF size(2) ens own(2), of 0 False]
  have "\<forall>s cached.
        in_early_opening example_env example_state \<and> 1 \<le> s \<and> s < 8 \<and>
        (\<forall>s'. 1 \<le> s' \<and> s' < s \<longrightarrow>
           cache_lookup example_env (m_nncache (w_net ?w)) (get_symmetry_hash example_state s') = None) \<and>
        cache_lookup example_env (m_nncache (w_net ?w)) (get_symmetry_hash example_state s) = Some cached \<longrightarrow>
        (\<exists>r. get_output example_env example_state DIRECT 0 True False ?w =
               (Inr r, ?w\<lparr>w_trace := w_trace ?w @
                    map CacheLookup (get_hash example_state # map (get_symmetry_hash example_state) [1..<Suc s])\<rparr>) \<and>
             length (nr_policy r) = NUM_INTERSECTIONS example_env \<and>
             (\<forall>idx<NUM_INTERSECTIONS example_env.
                nr_policy r ! idx = nr_policy cached ! symmetry_nn_idx_table example_env s idx) \<and>
             nr_policy_pass r = nr_policy_pass cached \<and>
             nr_alpha r = nr_alpha cached \<and> nr_beta r = nr_beta cached \<and>
             nr_beta2 r = nr_beta2 cached \<and> nr_is_sai r = nr_is_sai cached \<and>
             nr_value r =
               (if nr_is_sai cached
                then fst (sigmoid (nr_alpha cached) (nr_beta cached)
                       (if get_to_move example_state = WHITE then get_komi_adj example_state
                        else - get_komi_adj example_state)
                       (nr_beta2 cached))
                else nr_value cached))"
    by (rule conjunct2 [THEN conjunct2])
  note inst = this [rule_format, of 2 example_cached]
  have "in_early_opening example_env example_state \<and> 1 \<le> (2::nat) \<and> (2::nat) < 8 \<and>
        (\<forall>s'. 1 \<le> s' \<and> s' < 2 \<longrightarrow>
           cache_lookup example_env (m_nncache (w_net ?w)) (get_symmetry_hash example_state s') = None) \<and>
        cache_lookup example_env (m_nncache (w_net ?w)) (get_symmetry_hash example_state 2) = Some example_cached"
    using early miss hit by simp
  from inst [OF this]
  obtain r where out: "get_output example_env example_state DIRECT 0 True False ?w =
        (Inr r, ?w\<lparr>w_trace := w_trace ?w @
             map CacheLookup (get_hash example_state # map (get_symmetry_hash example_state) [1..<Suc 2])\<rparr>)"
    and pol: "\<forall>idx<NUM_INTERSECTIONS example_env.
        nr_policy r ! idx = nr_policy example_cached ! symmetry_nn_idx_table example_env 2 idx"
    and pass: "nr_policy_pass r = nr_policy_pass example_cached"
    and val: "nr_value r = (if nr_is_sai example_cached
                then fst (sigmoid (nr_alpha example_cached) (nr_beta example_cached)
                       (if get_to_move example_state = WHITE then get_komi_adj example_state
                        else - get_komi_adj example_state)
                       (nr_beta2 example_cached))
                else nr_value example_cached)"
    by blast
  from pol idx(2) have "nr_policy r ! 0 = nr_policy example_cached ! symmetry_nn_idx_table example_env 2 0"
    by blast
  then have "nr_policy r ! 0 = nr_policy example_cached ! 18"
    unfolding idx(1) .
  moreover from val cached(4) have "nr_value r = nr_value example_cached"
    by simp
  ultimately have A: "get_output example_env example_state DIRECT 0 True False ?w
          = (Inr r, ?w\<lparr>w_trace := [CacheLookup 1, CacheLookup 11, CacheLookup 12]\<rparr>) \<and>
        nr_policy r ! 0 = 18 \<and> nr_policy_pass r = 1 / 2 \<and> nr_value r = 3 / 4"
    using out pass unfolding tr cached(1,2,3) by simp
  from symmetric_cache_probe [OF size(1) ens own(1), of 0 False]
  have "\<not> in_early_opening example_env ?late \<longrightarrow>
        lookups (w_trace (snd (get_output example_env ?late DIRECT 0 True False ?w)))
          = lookups (w_trace ?w) @ [get_hash ?late]"
    by (rule conjunct1)
  with late have "lookups (w_trace (snd (get_output example_env ?late DIRECT 0 True False ?w)))
          = lookups (w_trace ?w) @ [get_hash ?late]"
    by blast
  then have B: "lookups (w_trace (snd (get_output example_env ?late DIRECT 0 True False ?w))) = [1]"
    by (simp add: example_world_def example_state_def)
  from size(2) ens own(2) early late A B show ?thesis
    by blast
qed

section \<open>create_children after two passes\<close>

text \<open>
  C6. For every state in which two or more passes have occurred, \<open>create_children\<close>
  returns false and changes nothing: the node (its children, its visits, its statistics,
  its \<open>expand_state\<close>), the world (no lookup, no forward pass, no insertion, no random
  draw), \<open>nodecount\<close> and the four values passed by reference are as before.
\<close>

theorem create_children_two_passes:
  "2 \<le> get_passes state \<Longrightarrow> create_children e state min_psa_ratio cc = (Inr False, cc)"
  by (simp add: create_children_def)

theorem create_children_two_passes_witness:
  "2 \<le> get_passes (example_state\<lparr>get_passes := 2\<rparr>) \<and>
   create_children example_env (example_state\<lparr>get_passes := 2\<rparr>) 0 fresh_call = (Inr False, fresh_call) \<and>
   m_expand_state (cc_node fresh_call) = INITIAL"
proof -
  have two: "2 \<le> get_passes (example_state\<lparr>get_passes := 2\<rparr>)"
    by simp
  from create_children_two_passes [OF two, of example_env 0 fresh_call] two
  show ?thesis
    by (simp add: fresh_call_def fresh_node_def)
qed

section \<open>create_children when the network halts\<close>

lemma acquire_expanding_INITIAL:
  "m_expand_state node = INITIAL \<Longrightarrow>
     acquire_expanding node = (True, node\<lparr>m_expand_state := EXPANDING\<rparr>)"
  by (simp add: acquire_expanding_def)

lemma expandable_EXPANDING:
  "expandable (node\<lparr>m_expand_state := EXPANDING\<rparr>) min_psa_ratio =
     Inr (min_psa_ratio < m_min_psa_ratio_children node)"
  by (simp add: expandable_def)

lemma expand_cancel_EXPANDING:
  "m_expand_state node = INITIAL \<Longrightarrow>
     expand_cancel (node\<lparr>m_expand_state := EXPANDING\<rparr>) = Inr node"
  by (cases node) (simp add: expand_cancel_def)

text \<open>\<open>create_children\<close> up to the return of the network, on a node that can be expanded.\<close>

lemma create_children_reaches_network:
  assumes passes: "get_passes state < 2"
    and initial: "m_expand_state (cc_node cc) = INITIAL"
    and ratio: "min_psa_ratio < m_min_psa_ratio_children (cc_node cc)"
  shows "create_children e state min_psa_ratio cc =
     (let out = get_output e state RANDOM_SYMMETRY (- 1)
                  (cfg_use_nncache (cfg e)) (cfg_use_nncache (cfg e)) (cc_world cc)
      in case fst out of
           Inl ex \<Rightarrow>
             if ex = NetworkHaltException
             then (Inl NetworkHaltException, cc\<lparr>cc_world := snd out\<rparr>)
             else (Inl ex, cc\<lparr>cc_node := (cc_node cc)\<lparr>m_expand_state := EXPANDING\<rparr>,
                           cc_world := snd out\<rparr>)
         | Inr raw_netlist \<Rightarrow>
             expand_node e state min_psa_ratio raw_netlist
               (cc\<lparr>cc_node := (cc_node cc)\<lparr>m_expand_state := EXPANDING\<rparr>, cc_world := snd out\<rparr>))"
proof -
  from passes have p: "\<not> 2 \<le> get_passes state" by simp
  show ?thesis
    unfolding create_children_def if_not_P [OF p] acquire_expanding_INITIAL [OF initial]
    using ratio initial
    by (simp add: expandable_EXPANDING expand_cancel_EXPANDING Let_def case_prod_beta
        split: sum.split)
qed

text \<open>
  C5. If the network evaluation inside \<open>create_children\<close> raises
  \<open>NetworkHaltException\<close> (on a node in state \<open>INITIAL\<close> that can be expanded, in a state
  with fewer than two passes, so that the evaluation is reached), then \<open>create_children\<close>
  raises the same exception and the node is as it was before the call: its
  \<open>expand_state\<close>, set to \<open>EXPANDING\<close> for the evaluation, is \<open>INITIAL\<close> again, no child
  is installed, and only the world is as the evaluation left it. The node can be acquired
  and expanded again: a later call whose evaluation returns a result goes on to expand it.
\<close>

theorem create_children_halt:
  assumes passes: "get_passes state < 2"
    and initial: "m_expand_state (cc_node cc) = INITIAL"
    and ratio: "min_psa_ratio < m_min_psa_ratio_children (cc_node cc)"
    and halt: "fst (get_output e state RANDOM_SYMMETRY (- 1)
                  (cfg_use_nncache (cfg e)) (cfg_use_nncache (cfg e)) (cc_world cc))
               = Inl NetworkHaltException"
  shows "create_children e state min_psa_ratio cc =
           (Inl NetworkHaltException,
            cc\<lparr>cc_world := snd (get_output e state RANDOM_SYMMETRY (- 1)
                  (cfg_use_nncache (cfg e)) (cfg_use_nncache (cfg e)) (cc_world cc))\<rparr>) \<and>
         cc_node (snd (create_children e state min_psa_ratio cc)) = cc_node cc \<and>
         m_expand_state (cc_node (snd (create_children e state min_psa_ratio cc))) = INITIAL \<and>
         m_children (cc_node (snd (create_children e state min_psa_ratio cc)))
           = m_children (cc_node cc) \<and>
         expand_cancel ((cc_node cc)\<lparr>m_expand_state := EXPANDING\<rparr>) = Inr (cc_node cc) \<and>
         (\<forall>e' raw_netlist.
            fst (get_output e' state RANDOM_SYMMETRY (- 1)
                  (cfg_use_nncache (cfg e')) (cfg_use_nncache (cfg e'))
                  (cc_world (snd (create_children e state min_psa_ratio cc)))) = Inr raw_netlist
            \<longrightarrow>
            create_children e' state min_psa_ratio (snd (create_children e state min_psa_ratio cc)) =
              expand_node e' state min_psa_ratio raw_netlist
                ((snd (create_children e state min_psa_ratio cc))
                   \<lparr>cc_node := (cc_node cc)\<lparr>m_expand_state := EXPANDING\<rparr>,
                    cc_world := snd (get_output e' state RANDOM_SYMMETRY (- 1)
                      (cfg_use_nncache (cfg e')) (cfg_use_nncache (cfg e'))
                      (cc_world (snd (create_children e state min_psa_ratio cc))))\<rparr>))"
proof -
  let ?w' = "snd (get_output e state RANDOM_SYMMETRY (- 1)
                  (cfg_use_nncache (cfg e)) (cfg_use_nncache (cfg e)) (cc_world cc))"
  have res: "create_children e state min_psa_ratio cc =
      (Inl NetworkHaltException, cc\<lparr>cc_world := ?w'\<rparr>)"
    unfolding create_children_reaches_network [OF passes initial ratio] Let_def halt
    by simp
  have node: "cc_node (snd (create_children e state min_psa_ratio cc)) = cc_node cc"
    unfolding res by simp
  have again: "create_children e' state min_psa_ratio (snd (create_children e state min_psa_ratio cc)) =
      expand_node e' state min_psa_ratio raw_netlist
        ((snd (create_children e state min_psa_ratio cc))
           \<lparr>cc_node := (cc_node cc)\<lparr>m_expand_state := EXPANDING\<rparr>,
            cc_world := snd (get_output e' state RANDOM_SYMMETRY (- 1)
              (cfg_use_nncache (cfg e')) (cfg_use_nncache (cfg e'))
              (cc_world (snd (create_children e state min_psa_ratio cc))))\<rparr>)"
    if "fst (get_output e' state RANDOM_SYMMETRY (- 1)
              (cfg_use_nncache (cfg e')) (cfg_use_nncache (cfg e'))
              (cc_world (snd (create_children e state min_psa_ratio cc)))) = Inr raw_netlist"
    for e' :: "('a, 'b) env" and raw_netlist
  proof -
    have i: "m_expand_state (cc_node (snd (create_children e state min_psa_ratio cc))) = INITIAL"
      unfolding node by (rule initial)
    have r: "min_psa_ratio < m_min_psa_ratio_children (cc_node (snd (create_children e state min_psa_ratio cc)))"
      unfolding node by (rule ratio)
    show ?thesis
      unfolding create_children_reaches_network [OF passes i r] Let_def that node
      by simp
  qed
  from res node initial again expand_cancel_EXPANDING [OF initial] show ?thesis
    by simp
qed


theorem create_children_halt_witness:
  "get_passes example_state < 2 \<and> m_expand_state (cc_node fresh_call) = INITIAL \<and>
   1 / 10 < m_min_psa_ratio_children (cc_node fresh_call) \<and>
   fst (get_output halted_env example_state RANDOM_SYMMETRY (- 1)
          (cfg_use_nncache (cfg halted_env)) (cfg_use_nncache (cfg halted_env)) (cc_world fresh_call))
     = Inl NetworkHaltException \<and>
   fst (create_children halted_env example_state (1 / 10) fresh_call) = Inl NetworkHaltException \<and>
   cc_node (snd (create_children halted_env example_state (1 / 10) fresh_call)) = fresh_node \<and>
   m_expand_state (cc_node (snd (create_children halted_env example_state (1 / 10) fresh_call)))
     = INITIAL \<and>
   m_children (cc_node (snd (create_children halted_env example_state (1 / 10) fresh_call))) = []"
proof -
  let ?w = "example_world []"
  have passes: "get_passes example_state < 2"
    by (simp add: example_state_def)
  have initial: "m_expand_state (cc_node fresh_call) = INITIAL"
    by (simp add: fresh_call_def fresh_node_def)
  have ratio: "1 / 10 < m_min_psa_ratio_children (cc_node fresh_call)"
    by (simp add: fresh_call_def fresh_node_def)
  have size: "get_boardsize example_state = BOARD_SIZE halted_env"
    by (simp add: example_state_def halted_env_def example_env_def)
  have ens: "RANDOM_SYMMETRY \<noteq> AVERAGE" by simp
  have own: "cache_lookup halted_env (m_nncache (w_net ?w)) (get_hash example_state) = None"
    by (simp add: halted_env_def example_env_def example_world_def network_with_cache_def)
  have early: "in_early_opening halted_env example_state"
    by (simp add: in_early_opening_def example_state_def halted_env_def example_env_def
        example_cfg_def)
  have miss: "cache_lookup halted_env (m_nncache (w_net ?w)) (get_symmetry_hash example_state s) = None"
    for s
    by (simp add: halted_env_def example_env_def example_world_def network_with_cache_def)
  have use: "cfg_use_nncache (cfg halted_env) = True" "cc_world fresh_call = ?w"
    "cc_node fresh_call = fresh_node"
    by (simp_all add: halted_env_def example_env_def example_cfg_def fresh_call_def)
  have halt: "fst (get_output halted_env example_state RANDOM_SYMMETRY (- 1)
          (cfg_use_nncache (cfg halted_env)) (cfg_use_nncache (cfg halted_env)) (cc_world fresh_call))
     = Inl NetworkHaltException"
    unfolding use
    using get_output_early_miss [OF size ens own early miss, of "- 1" True]
    by (simp add: evaluate_def forward_def after_evaluate_def case_prod_beta
        halted_env_def example_env_def)
  note h = create_children_halt [OF passes initial ratio halt]
  from h [THEN conjunct1]
  have 1: "fst (create_children halted_env example_state (1 / 10) fresh_call) = Inl NetworkHaltException"
    by simp
  from h [THEN conjunct2, THEN conjunct1]
  have 2: "cc_node (snd (create_children halted_env example_state (1 / 10) fresh_call)) = fresh_node"
    by (simp add: use)
  from h [THEN conjunct2, THEN conjunct2, THEN conjunct1]
  have 3: "m_expand_state (cc_node (snd (create_children halted_env example_state (1 / 10) fresh_call)))
           = INITIAL" .
  from h [THEN conjunct2, THEN conjunct2, THEN conjunct2, THEN conjunct1]
  have 4: "m_children (cc_node (snd (create_children halted_env example_state (1 / 10) fresh_call))) = []"
    by (simp add: use fresh_node_def)
  from passes initial ratio halt 1 2 3 4 show ?thesis
    by blast
qed

section \<open>The quantile update\<close>




section \<open>The AVERAGE ensemble: the mean and the insertion\<close>





section \<open>The pass child\<close>

lemma allow_pass_iff:
  "allow_pass e state raw_netlist nodelist \<longleftrightarrow>
     cfg_dumbpass (cfg e)
     \<or> int (length nodelist) \<le> max 5 (int (BOARD_SIZE e))
     \<or> (nr_value raw_netlist > FLT_0_8
        \<and> (if get_to_move state = BLACK then 1 else - 1) * final_score state \<ge> 0)"
  unfolding allow_pass_def Let_def by (cases "get_to_move state = BLACK") auto

text \<open>
  Without symmetry exploitation the stabilizer subgroup is the identity, and the list has
  one entry for each legal intersection, in the order of the intersections, with the policy
  of the intersection raised to \<open>1 / cfg_policy_temp\<close>.
\<close>

lemma stabilizer_subgroup_identity:
  "\<not> cfg_exploit_symmetries (cfg e) \<Longrightarrow> stabilizer_subgroup e state = [0]"
proof -
  have "filter (\<lambda>i. i = 0) [0..<8] = [0::nat]"
    by (simp add: upt_rec)
  then show "\<not> cfg_exploit_symmetries (cfg e) \<Longrightarrow> stabilizer_subgroup e state = [0]"
    by (simp add: stabilizer_subgroup_def)
qed

lemma vertex_step_identity:
  assumes nosym: "\<not> cfg_exploit_symmetries (cfg e)"
    and symm: "get_sym_move state (get_vertex state i) 0 = get_vertex state i"
    and idx: "get_index state (get_vertex state i) = i"
    and fresh: "i \<notin> fst acc"
  shows "fst (vertex_step e state raw_netlist i acc) =
           (if is_move_legal state (get_to_move state) (get_vertex state i)
            then insert i (fst acc) else fst acc)"
    and "fst (snd (vertex_step e state raw_netlist i acc)) =
           (if is_move_legal state (get_to_move state) (get_vertex state i)
            then fst (snd acc) @ [(nr_policy raw_netlist ! i powr (1 / cfg_policy_temp (cfg e)), get_vertex state i)] else fst (snd acc))"
  using symm idx fresh
  unfolding vertex_step_def stabilizer_subgroup_identity [OF nosym] symmetry_step_def
    Let_def case_prod_beta
  by simp_all


lemma fold_vertex_step_identity:
  assumes nosym: "\<not> cfg_exploit_symmetries (cfg e)"
    and symm: "\<And>i. i < n \<Longrightarrow> get_sym_move state (get_vertex state i) 0 = get_vertex state i"
    and idx: "\<And>i. i < n \<Longrightarrow> get_index state (get_vertex state i) = i"
  shows "fst (fold (vertex_step e state raw_netlist) [0..<n] ({}, [], 0, rng)) \<subseteq> {..<n} \<and>
     fst (snd (fold (vertex_step e state raw_netlist) [0..<n] ({}, [], 0, rng))) =
       map (\<lambda>i. (nr_policy raw_netlist ! i powr (1 / cfg_policy_temp (cfg e)), get_vertex state i))
         (filter (\<lambda>i. is_move_legal state (get_to_move state) (get_vertex state i)) [0..<n])"
  using symm idx
proof (induction n)
  case 0
  show ?case by simp
next
  case (Suc n)
  let ?acc = "fold (vertex_step e state raw_netlist) [0..<n] ({}, [], 0, rng)"
  from Suc have sub: "fst ?acc \<subseteq> {..<n}"
    and nodes: "fst (snd ?acc) =
       map (\<lambda>i. (nr_policy raw_netlist ! i powr (1 / cfg_policy_temp (cfg e)), get_vertex state i))
         (filter (\<lambda>i. is_move_legal state (get_to_move state) (get_vertex state i)) [0..<n])"
    by simp_all
  from sub have fresh: "n \<notin> fst ?acc" by auto
  have symm_n: "get_sym_move state (get_vertex state n) 0 = get_vertex state n"
    by (rule Suc.prems) simp
  have idx_n: "get_index state (get_vertex state n) = n"
    by (rule Suc.prems) simp
  note step = vertex_step_identity [OF nosym symm_n idx_n fresh, where raw_netlist = raw_netlist]
  have "fst (vertex_step e state raw_netlist n ?acc) \<subseteq> {..<Suc n}"
    unfolding step(1) using sub by auto
  moreover have "fst (snd (vertex_step e state raw_netlist n ?acc)) =
       map (\<lambda>i. (nr_policy raw_netlist ! i powr (1 / cfg_policy_temp (cfg e)), get_vertex state i))
         (filter (\<lambda>i. is_move_legal state (get_to_move state) (get_vertex state i)) [0..<Suc n])"
    unfolding step(2) using nodes by simp
  ultimately show ?case by simp
qed

lemma board_moves_identity:
  assumes "\<not> cfg_exploit_symmetries (cfg e)"
    and "\<And>i. i < NUM_INTERSECTIONS e \<Longrightarrow>
           get_sym_move state (get_vertex state i) 0 = get_vertex state i"
    and "\<And>i. i < NUM_INTERSECTIONS e \<Longrightarrow> get_index state (get_vertex state i) = i"
  shows "fst (snd (board_moves e state raw_netlist rng)) =
     map (\<lambda>i. (nr_policy raw_netlist ! i powr (1 / cfg_policy_temp (cfg e)), get_vertex state i))
       (legal_moves e state)"
  unfolding board_moves_def legal_moves_def
  using fold_vertex_step_identity [OF assms, where raw_netlist = raw_netlist and rng = rng]
  by simp

lemma add_pass_unfold:
  "add_pass e state raw_netlist (nodelist, legal_sum) =
     (if cfg_dumbpass (cfg e)
         \<or> int (length nodelist) \<le> max 5 (int (BOARD_SIZE e))
         \<or> (nr_value raw_netlist > FLT_0_8
            \<and> (if get_to_move state = BLACK then 1 else - 1) * final_score state \<ge> 0)
      then (nodelist @ [(nr_policy_pass raw_netlist powr (1 / cfg_policy_temp (cfg e)), PASS)],
            legal_sum + nr_policy_pass raw_netlist powr (1 / cfg_policy_temp (cfg e)))
      else (nodelist, legal_sum))"
  unfolding add_pass_def Let_def prod.case allow_pass_iff by (rule refl)

lemma filter_less_upt: "k \<le> n \<Longrightarrow> filter (\<lambda>i. i < k) [0..<n] = [0..<k]"
proof (induction n)
  case 0
  then show ?case by simp
next
  case (Suc n)
  show ?case
  proof (cases "k \<le> n")
    case True
    with Suc.IH show ?thesis by simp
  next
    case False
    with Suc.prems have "k = Suc n" by simp
    then show ?thesis by simp
  qed
qed

lemma example_identity:
  "\<not> cfg_exploit_symmetries (cfg example_env)"
  "get_sym_move (example_state\<lparr>is_move_legal := l, final_score := f\<rparr>)
     (get_vertex (example_state\<lparr>is_move_legal := l, final_score := f\<rparr>) i) 0
     = get_vertex (example_state\<lparr>is_move_legal := l, final_score := f\<rparr>) i"
  "get_index (example_state\<lparr>is_move_legal := l, final_score := f\<rparr>)
     (get_vertex (example_state\<lparr>is_move_legal := l, final_score := f\<rparr>) i) = i"
  by (simp_all add: example_env_def example_cfg_def example_state_def)

lemma example_state_update:
  "example_state\<lparr>is_move_legal := (\<lambda>c v. v < 19), final_score := 0\<rparr> = example_state"
  by (simp add: example_state_def)

lemma example_legal_moves:
  "legal_moves example_env example_state = [0..<19]"
  "legal_moves example_env (example_state\<lparr>is_move_legal := (\<lambda>c v. True), final_score := f\<rparr>)
     = [0..<361]"
  using filter_less_upt [of 19 361]
  by (simp_all add: legal_moves_def example_env_def example_state_def NUM_INTERSECTIONS_def)

lemma example_board_moves_length:
  "length (fst (snd (board_moves example_env example_state raw_netlist rng))) = 19"
  "length (fst (snd (board_moves example_env
     (example_state\<lparr>is_move_legal := (\<lambda>c v. True), final_score := f\<rparr>) raw_netlist rng))) = 361"
proof -
  show "length (fst (snd (board_moves example_env example_state raw_netlist rng))) = 19"
    using board_moves_identity [of example_env
        "example_state\<lparr>is_move_legal := (\<lambda>c v. v < 19), final_score := 0\<rparr>"
        raw_netlist rng, OF example_identity]
    unfolding example_state_update by (simp add: example_legal_moves)
  show "length (fst (snd (board_moves example_env
     (example_state\<lparr>is_move_legal := (\<lambda>c v. True), final_score := f\<rparr>) raw_netlist rng))) = 361"
    using board_moves_identity [of example_env
        "example_state\<lparr>is_move_legal := (\<lambda>c v. True), final_score := f\<rparr>"
        raw_netlist rng, OF example_identity]
    by (simp add: example_legal_moves)
qed

text \<open>
  C2, as stated, does not hold. In the example state 19 board moves are legal on the
  19 x 19 board, which is not fewer than \<open>max(5, 19)\<close>; the dumb-pass flag is off and the
  winrate is one half: none of (a), (b), (c) holds, and the pass is offered. With all 361
  points legal, black to move and ahead by one point, and a winrate of
  \<open>13421773 / 16777216\<close>, which exceeds 0.8, (c) holds, and the pass is not offered: the
  winrate does not exceed the single-precision constant \<open>0.8f\<close>, which is that number.
\<close>

theorem pass_child_counterexample:
  "allow_pass example_env example_state ((example_result 0)\<lparr>nr_value := 1 / 2\<rparr>)
     (fst (snd (board_moves example_env example_state ((example_result 0)\<lparr>nr_value := 1 / 2\<rparr>) 0)))
   \<and> \<not> allow_pass_spec example_env example_state ((example_result 0)\<lparr>nr_value := 1 / 2\<rparr>)
   \<and> \<not> allow_pass example_env (example_state\<lparr>is_move_legal := (\<lambda>c v. True), final_score := 1\<rparr>)
         ((example_result 0)\<lparr>nr_value := 13421773 / 16777216\<rparr>)
         (fst (snd (board_moves example_env
            (example_state\<lparr>is_move_legal := (\<lambda>c v. True), final_score := 1\<rparr>)
            ((example_result 0)\<lparr>nr_value := 13421773 / 16777216\<rparr>) 0)))
   \<and> allow_pass_spec example_env (example_state\<lparr>is_move_legal := (\<lambda>c v. True), final_score := 1\<rparr>)
         ((example_result 0)\<lparr>nr_value := 13421773 / 16777216\<rparr>)"
proof -
  have bs: "BOARD_SIZE example_env = 19" and dumb: "\<not> cfg_dumbpass (cfg example_env)"
    by (simp_all add: example_env_def example_cfg_def)
  have st: "final_score example_state = 0" "get_to_move example_state = BLACK"
    by (simp_all add: example_state_def)
  show ?thesis
    unfolding allow_pass_iff allow_pass_spec_def example_board_moves_length example_legal_moves
    by (simp add: bs dumb st FLT_0_8_def)
qed

text \<open>
  C2, amended. In \<open>create_children\<close>, with \<open>nodelist\<close> the list of the board moves the loop
  over the intersections has built, a pass is appended to the list if at least one of:
  (a) the dumb-pass flag is set; (b) the list holds at most \<open>max(5, BOARD_SIZE)\<close> board
  moves; (c) the winrate of the side to move from the network exceeds the single-precision
  constant \<open>0.8f = 13421773 / 16777216\<close> and the side to move is ahead on the board under
  Tromp-Taylor scoring. No pass is appended if none of (a), (b) holds and the winrate does
  not exceed \<open>0.8f\<close> or the side to move is behind on the board. (A level score with such
  a winrate and neither (a) nor (b) is left open.) The prior of the pass is the pass
  policy raised to \<open>1 / cfg_policy_temp\<close>, and is added to \<open>legal_sum\<close>. When symmetries
  are not exploited (the identity symmetry leaving every vertex in place, and \<open>get_index\<close>
  inverting \<open>get_vertex\<close>), the list holds one entry for each legal intersection, with the
  policy of that intersection raised to the same power: the count in (b) is then the
  number of legal board moves.
\<close>

theorem pass_child:
  "(let (taken_already, nodelist, legal_sum, rng') = board_moves e state raw_netlist rng;
        warm_pass_policy = nr_policy_pass raw_netlist powr (1 / cfg_policy_temp (cfg e));
        relative_score = (if get_to_move state = BLACK then 1 else - 1) * final_score state
    in (cfg_dumbpass (cfg e)
          \<or> int (length nodelist) \<le> max 5 (int (BOARD_SIZE e))
          \<or> (nr_value raw_netlist > FLT_0_8 \<and> relative_score > 0)
        \<longrightarrow> add_pass e state raw_netlist (nodelist, legal_sum) =
              (nodelist @ [(warm_pass_policy, PASS)], legal_sum + warm_pass_policy))
       \<and> (\<not> cfg_dumbpass (cfg e)
            \<and> \<not> int (length nodelist) \<le> max 5 (int (BOARD_SIZE e))
            \<and> (\<not> nr_value raw_netlist > FLT_0_8 \<or> relative_score < 0)
          \<longrightarrow> add_pass e state raw_netlist (nodelist, legal_sum) = (nodelist, legal_sum))
       \<and> (\<not> cfg_exploit_symmetries (cfg e)
            \<and> (\<forall>i < NUM_INTERSECTIONS e.
                  get_sym_move state (get_vertex state i) 0 = get_vertex state i
                  \<and> get_index state (get_vertex state i) = i)
          \<longrightarrow> nodelist =
                map (\<lambda>i. (nr_policy raw_netlist ! i powr (1 / cfg_policy_temp (cfg e)),
                          get_vertex state i))
                  (legal_moves e state)))"
proof -
  have "fst (snd (board_moves e state raw_netlist rng)) =
          map (\<lambda>i. (nr_policy raw_netlist ! i powr (1 / cfg_policy_temp (cfg e)),
                    get_vertex state i))
            (legal_moves e state)"
    if "\<not> cfg_exploit_symmetries (cfg e)"
      and "\<forall>i < NUM_INTERSECTIONS e.
             get_sym_move state (get_vertex state i) 0 = get_vertex state i
             \<and> get_index state (get_vertex state i) = i"
    using that by (intro board_moves_identity) simp_all
  then show ?thesis
    unfolding Let_def case_prod_beta add_pass_unfold by auto
qed


theorem pass_child_witness:
  "(let (taken_already, nodelist, legal_sum, rng') =
          board_moves example_env example_state (example_result 0) 0
    in add_pass example_env example_state (example_result 0) (nodelist, legal_sum) =
         (nodelist @ [(1 / 5, PASS)], legal_sum + 1 / 5)
       \<and> nodelist = map (\<lambda>i. (1 / 40, int i)) [0..<19])
   \<and> (let (taken_already, nodelist, legal_sum, rng') =
          board_moves example_env
            (example_state\<lparr>is_move_legal := (\<lambda>c v. True), final_score := - 1\<rparr>) (example_result 0) 0
       in add_pass example_env
            (example_state\<lparr>is_move_legal := (\<lambda>c v. True), final_score := - 1\<rparr>) (example_result 0)
            (nodelist, legal_sum) = (nodelist, legal_sum))"
proof -
  have bs: "BOARD_SIZE example_env = 19" "cfg_policy_temp (cfg example_env) = 1"
    "\<not> cfg_dumbpass (cfg example_env)" "\<not> cfg_exploit_symmetries (cfg example_env)"
    "NUM_INTERSECTIONS example_env = 361"
    by (simp_all add: example_env_def example_cfg_def NUM_INTERSECTIONS_def)
  have st: "final_score example_state = 0" "get_vertex example_state = int"
    "get_sym_move example_state = (\<lambda>v s. v)" "get_index example_state = nat"
    "get_to_move example_state = BLACK"
    by (simp_all add: example_state_def)
  have res: "nr_value (example_result 0) = 9 / 10" "nr_policy_pass (example_result 0) = 1 / 5"
    by (simp_all add: example_result_def)
  let ?bm = "board_moves example_env example_state (example_result 0) 0"
  note inst = pass_child [of example_env example_state "example_result 0" 0,
      unfolded Let_def case_prod_beta]
  have offered: "cfg_dumbpass (cfg example_env)
      \<or> int (length (fst (snd ?bm))) \<le> max 5 (int (BOARD_SIZE example_env))
      \<or> (nr_value (example_result 0) > FLT_0_8
         \<and> (if get_to_move example_state = BLACK then 1 else - 1) * final_score example_state > 0)"
    by (simp add: example_board_moves_length bs)
  have hyp: "\<not> cfg_exploit_symmetries (cfg example_env)
      \<and> (\<forall>i < NUM_INTERSECTIONS example_env.
            get_sym_move example_state (get_vertex example_state i) 0 = get_vertex example_state i
            \<and> get_index example_state (get_vertex example_state i) = i)"
    by (simp add: bs st)
  from inst offered have main0: "add_pass example_env example_state (example_result 0)
        (fst (snd ?bm), fst (snd (snd ?bm))) =
      (fst (snd ?bm) @ [(nr_policy_pass (example_result 0)
                 powr (1 / cfg_policy_temp (cfg example_env)), PASS)],
       fst (snd (snd ?bm)) + nr_policy_pass (example_result 0)
                 powr (1 / cfg_policy_temp (cfg example_env)))"
    by blast
  from inst hyp have nodes0: "fst (snd ?bm) =
      map (\<lambda>i. (nr_policy (example_result 0) ! i powr (1 / cfg_policy_temp (cfg example_env)),
                get_vertex example_state i))
        (legal_moves example_env example_state)"
    by blast
  have main: "add_pass example_env example_state (example_result 0)
        (fst (snd ?bm), fst (snd (snd ?bm))) =
      (fst (snd ?bm) @ [(1 / 5, PASS)], fst (snd (snd ?bm)) + 1 / 5)"
    unfolding main0 by (simp add: bs res)
  have nodes: "fst (snd ?bm) = map (\<lambda>i. (1 / 40, int i)) [0..<19]"
    unfolding nodes0 example_legal_moves
    by (rule map_cong) (simp_all add: bs st example_result_def del: upt_Suc)
  let ?state = "example_state\<lparr>is_move_legal := (\<lambda>c v. True), final_score := - 1\<rparr>"
  let ?bm' = "board_moves example_env ?state (example_result 0) 0"
  note inst' = pass_child [of example_env ?state "example_result 0" 0,
      unfolded Let_def case_prod_beta]
  have st': "final_score ?state = - 1" "get_to_move ?state = BLACK"
    by (simp_all add: example_state_def)
  have refused: "\<not> cfg_dumbpass (cfg example_env)
      \<and> \<not> int (length (fst (snd ?bm'))) \<le> max 5 (int (BOARD_SIZE example_env))
      \<and> (\<not> nr_value (example_result 0) > FLT_0_8
         \<or> (if get_to_move ?state = BLACK then 1 else - 1) * final_score ?state < 0)"
    unfolding example_board_moves_length st' by (simp add: bs)
  from inst' refused have none: "add_pass example_env ?state (example_result 0)
        (fst (snd ?bm'), fst (snd (snd ?bm'))) = (fst (snd ?bm'), fst (snd (snd ?bm')))"
    by blast
  show ?thesis
    unfolding Let_def case_prod_beta
    by (intro conjI) (rule main, rule nodes, rule none)
qed

end
